theory Spec2Isabelle
  imports Complex_Main "HOL-Library.AList" "HOL-Library.Sublist"
begin

section \<open>Data model\<close>

text \<open>
  The module \<^verbatim>\<open>featuretools/utils/entity_utils.py\<close> works on pandas (or Dask) data
  frames.  A cell of a column is one of the Python values below.  Integers are unbounded,
  floating point numbers are idealised as rationals, \<^verbatim>\<open>float('nan')\<close>, \<^verbatim>\<open>None\<close> and
  \<^verbatim>\<open>pandas.NaT\<close> are the three missing markers, a timestamp and a time difference
  carry their nanosecond count, and a tuple is a latitude/longitude pair whose components
  may be NaN (\<open>None\<close> below).
\<close>

datatype cell =
    VNaN
  | VNone
  | VNaT
  | VBool bool
  | VInt int
  | VFloat rat
  | VStr string
  | VStamp int
  | VDelta int
  | VTuple "rat option" "rat option"

text \<open>\<^verbatim>\<open>Series.isna\<close> / \<^verbatim>\<open>notnull\<close> / \<^verbatim>\<open>dropna\<close>: NaN, None and NaT are missing.\<close>

fun isna :: "cell \<Rightarrow> bool" where
  "isna VNaN = True"
| "isna VNone = True"
| "isna VNaT = True"
| "isna _ = False"

definition dropna :: "cell list \<Rightarrow> cell list" where
  "dropna xs = filter (\<lambda>c. \<not> isna c) xs"

text \<open>
  Storage representations (\<^verbatim>\<open>Series.dtype\<close>).  \<open>DInt8\<close> stands for the numeric
  dtypes that pandas knows but \<^verbatim>\<open>PandasTypes._pandas_numerics\<close> does not list,
  \<open>DDatetime64tz\<close> for a timezone-aware timestamp dtype, \<open>DString\<close> for the
  pandas string extension dtype.
\<close>

datatype dtype =
    DObject | DBool | DCategory | DInt8 | DInt64 | DFloat64
  | DDatetime64 | DDatetime64tz | DTimedelta64 | DString

fun dtype_name :: "dtype \<Rightarrow> string" where
  "dtype_name DObject = ''object''"
| "dtype_name DBool = ''bool''"
| "dtype_name DCategory = ''category''"
| "dtype_name DInt8 = ''int8''"
| "dtype_name DInt64 = ''int64''"
| "dtype_name DFloat64 = ''float64''"
| "dtype_name DDatetime64 = ''datetime64[ns]''"
| "dtype_name DDatetime64tz = ''datetime64[ns, UTC]''"
| "dtype_name DTimedelta64 = ''timedelta64[ns]''"
| "dtype_name DString = ''string''"

text \<open>\<^verbatim>\<open>pandas.api.types.is_numeric_dtype\<close> (booleans count as numeric there).\<close>

fun is_numeric_dtype :: "dtype \<Rightarrow> bool" where
  "is_numeric_dtype DBool = True"
| "is_numeric_dtype DInt8 = True"
| "is_numeric_dtype DInt64 = True"
| "is_numeric_dtype DFloat64 = True"
| "is_numeric_dtype _ = False"

fun is_categorical_dtype :: "dtype \<Rightarrow> bool" where
  "is_categorical_dtype DCategory = True"
| "is_categorical_dtype _ = False"

fun is_datetime_or_timedelta_dtype :: "dtype \<Rightarrow> bool" where
  "is_datetime_or_timedelta_dtype DDatetime64 = True"
| "is_datetime_or_timedelta_dtype DTimedelta64 = True"
| "is_datetime_or_timedelta_dtype _ = False"

record column =
  dtype :: dtype
  cells :: "cell list"

text \<open>
  A data frame is either a pandas frame (materialised) or a Dask frame (lazy and
  partitioned).  Its columns are kept in order under their names; rows are identified by
  position, that is, the frame carries the default \<^verbatim>\<open>RangeIndex\<close>.
\<close>

datatype frame_kind = Pandas | Dask

record frame =
  kind :: frame_kind
  columns :: "(string \<times> column) list"

definition get_col :: "frame \<Rightarrow> string \<Rightarrow> column option" where
  "get_col df c = map_of (columns df) c"

text \<open>\<^verbatim>\<open>df[c] = col\<close>: replaces the column in place, or appends a new one.\<close>

definition set_col :: "frame \<Rightarrow> string \<Rightarrow> column \<Rightarrow> frame" where
  "set_col df c col = df\<lparr>columns := AList.update c col (columns df)\<rparr>"

text \<open>
  A frame is well formed when its column names are distinct and its columns have one
  length; a column is well typed when its cells fit its dtype.
\<close>

definition wf_frame :: "frame \<Rightarrow> bool" where
  "wf_frame df =
     (distinct (map fst (columns df)) \<and>
      list_all (\<lambda>p. length (cells (snd p)) = length (cells (snd (hd (columns df)))))
        (columns df))"

fun cell_fits :: "dtype \<Rightarrow> cell \<Rightarrow> bool" where
  "cell_fits DBool c = (case c of VBool _ \<Rightarrow> True | _ \<Rightarrow> False)"
| "cell_fits DInt8 c = (case c of VInt _ \<Rightarrow> True | _ \<Rightarrow> False)"
| "cell_fits DInt64 c = (case c of VInt _ \<Rightarrow> True | _ \<Rightarrow> False)"
| "cell_fits DFloat64 c = (case c of VFloat _ \<Rightarrow> True | VNaN \<Rightarrow> True | _ \<Rightarrow> False)"
| "cell_fits DDatetime64 c = (case c of VStamp _ \<Rightarrow> True | VNaT \<Rightarrow> True | _ \<Rightarrow> False)"
| "cell_fits DDatetime64tz c = (case c of VStamp _ \<Rightarrow> True | VNaT \<Rightarrow> True | _ \<Rightarrow> False)"
| "cell_fits DTimedelta64 c = (case c of VDelta _ \<Rightarrow> True | VNaT \<Rightarrow> True | _ \<Rightarrow> False)"
| "cell_fits DString c = (case c of VStr _ \<Rightarrow> True | VNaN \<Rightarrow> True | _ \<Rightarrow> False)"
| "cell_fits DObject c = True"
| "cell_fits DCategory c = True"

definition wt_column :: "column \<Rightarrow> bool" where
  "wt_column col = list_all (cell_fits (dtype col)) (cells col)"

subsection \<open>Semantic variable types\<close>

text \<open>
  Modelled from the spec: the classes of \<^verbatim>\<open>featuretools.variable_types\<close> are not part
  of the module.  The spec gives the closed taxonomy \<open>Unknown\<close>, \<open>Boolean\<close>,
  \<open>Numeric\<close>, \<open>Datetime\<close>, \<open>LatLong\<close> and the \<open>Discrete\<close> family with its
  members \<open>Categorical\<close> and \<open>Text\<close>; \<open>issubclass\<close> is its is-kind-of relation.
\<close>

datatype vtype =
  Unknown | Boolean | Numeric | Datetime | Discrete | Categorical | Text | LatLong

fun issubclass :: "vtype \<Rightarrow> vtype \<Rightarrow> bool" where
  "issubclass Categorical Discrete = True"
| "issubclass Text Discrete = True"
| "issubclass c k = (c = k)"

text \<open>
  The keyword arguments a type assignment may carry: \<^verbatim>\<open>format\<close>, \<^verbatim>\<open>true_val\<close>
  and \<^verbatim>\<open>false_val\<close> are the ones the converter reads.  A bare type is a type with
  \<open>no_kwargs\<close>.
\<close>

record kwargs =
  format :: "string option"
  true_val :: "cell option"
  false_val :: "cell option"

definition no_kwargs :: kwargs where
  "no_kwargs = \<lparr>format = None, true_val = None, false_val = None\<rparr>"

text \<open>
  Modelled from the spec: \<^verbatim>\<open>PandasTypes\<close> of \<^verbatim>\<open>featuretools.variable_types\<close> is not
  part of the module.  Its three tables, the recognised numeric representations, the
  name of the categorical representation and the recognised timestamp representations,
  are parameters of the driver.
\<close>

record pandas_types =
  pandas_numerics :: "string list"
  categorical :: string
  pandas_datetimes :: "string list"

subsection \<open>The pandas routines the module relies on\<close>

text \<open>
  What pandas reads out of a string is a parameter of the model, and so are the way it
  looks values up in an index, the random choices of \<^verbatim>\<open>Series.sample\<close> and the
  floating point square root:
  \<^item> \<open>str_to_numeric\<close>: the number \<^verbatim>\<open>pandas.to_numeric\<close> reads in a string, an
    integer or a float;
  \<^item> \<open>get_indexer\<close>: \<^verbatim>\<open>Index(keys).get_indexer(col)\<close>, the lookup behind
    \<^verbatim>\<open>Series.map(dict)\<close>: for a position of the column, the position of the key
    that pandas finds for the value there, if it finds one (which values pandas takes
    for equal depends on the dtypes of the keys and of the column, and on its version);
  \<^item> \<open>str_to_float\<close>: the number \<^verbatim>\<open>float\<close> reads in a string (\<^verbatim>\<open>astype(float)\<close>);
  \<^item> \<open>to_timestamp\<close>: the timestamp \<^verbatim>\<open>pandas.to_datetime\<close> reads in one value
    that is neither missing nor a timestamp, under an optional format;
  \<^item> \<open>rng\<close>: the random numbers drawn when a sample of the named column is taken;
  \<^item> \<open>str_len_mean\<close>: \<^verbatim>\<open>sample.str.len().mean()\<close>, \<open>None\<close> when the accessor
    raises \<^verbatim>\<open>AttributeError\<close> or the mean is NaN;
  \<^item> \<open>float_sqrt\<close>: the square root used by the standard deviation;
  \<^item> \<open>mode_first\<close>: the first entry of \<^verbatim>\<open>Series.mode()\<close>, if there is one.
\<close>

datatype numparse = NotNumeric | ParsedNaN | ParsedInt int | ParsedFloat rat

record pandas_lib =
  str_to_numeric :: "string \<Rightarrow> numparse"
  str_to_float :: "string \<Rightarrow> numparse"
  to_timestamp :: "string option \<Rightarrow> cell \<Rightarrow> int option"
  get_indexer :: "cell list \<Rightarrow> column \<Rightarrow> nat \<Rightarrow> nat option"
  rng :: "string \<Rightarrow> nat list"
  str_len_mean :: "cell list \<Rightarrow> rat option"
  float_sqrt :: "rat \<Rightarrow> rat"
  mode_first :: "cell list \<Rightarrow> cell option"

datatype error =
    ValueError_DaskInference
  | LookupError string
  | KeyError string
  | TypeError_AllStringToNumeric string
  | Exception_CannotConvert string vtype
  | ParserError
  | ZeroDivisionError
  | TypeError_EntitySet
  | TypeError_NotAClass
  | TypeError_AggNone
  | ValueError_Astype
  | ValueError_Sample
  | ValueError_ResetIndex

section \<open>The type converter\<close>

text \<open>
  \<^verbatim>\<open>pandas.to_numeric\<close> on one value of an object array: a number and a boolean
  stay, a missing value becomes NaN, a string is parsed; \<open>None\<close> is a value that is
  not a number (\<^verbatim>\<open>errors='raise'\<close> raises there, \<^verbatim>\<open>errors='coerce'\<close> writes
  NaN).
\<close>

fun to_numeric_cell :: "pandas_lib \<Rightarrow> cell \<Rightarrow> cell option" where
  "to_numeric_cell L (VInt i) = Some (VInt i)"
| "to_numeric_cell L (VFloat r) = Some (VFloat r)"
| "to_numeric_cell L (VBool b) = Some (VBool b)"
| "to_numeric_cell L VNaN = Some VNaN"
| "to_numeric_cell L VNone = Some VNaN"
| "to_numeric_cell L VNaT = Some VNaN"
| "to_numeric_cell L (VStr s) =
     (case str_to_numeric L s of
        NotNumeric \<Rightarrow> None
      | ParsedNaN \<Rightarrow> Some VNaN
      | ParsedInt i \<Rightarrow> Some (VInt i)
      | ParsedFloat r \<Rightarrow> Some (VFloat r))"
| "to_numeric_cell L (VStamp t) = None"
| "to_numeric_cell L (VDelta t) = None"
| "to_numeric_cell L (VTuple a b) = None"

definition coerce_cell :: "pandas_lib \<Rightarrow> cell \<Rightarrow> cell" where
  "coerce_cell L c = (case to_numeric_cell L c of None \<Rightarrow> VNaN | Some v \<Rightarrow> v)"

text \<open>
  The array that the value-by-value conversion returns: floats as soon as one value is a
  float or NaN, else integers as soon as one value is an integer, else booleans when
  there is a boolean, and an empty integer array when there is no value at all.
\<close>

fun is_float_cell :: "cell \<Rightarrow> bool" where
  "is_float_cell (VFloat r) = True"
| "is_float_cell VNaN = True"
| "is_float_cell _ = False"

fun is_int_cell :: "cell \<Rightarrow> bool" where
  "is_int_cell (VInt i) = True"
| "is_int_cell _ = False"

fun is_bool_cell :: "cell \<Rightarrow> bool" where
  "is_bool_cell (VBool b) = True"
| "is_bool_cell _ = False"

fun as_float :: "cell \<Rightarrow> cell" where
  "as_float (VInt i) = VFloat (of_int i)"
| "as_float (VBool b) = VFloat (if b then 1 else 0)"
| "as_float c = c"

fun as_int :: "cell \<Rightarrow> cell" where
  "as_int (VBool b) = VInt (if b then 1 else 0)"
| "as_int c = c"

definition numeric_result :: "cell list \<Rightarrow> column" where
  "numeric_result cs =
     (if list_ex is_float_cell cs then \<lparr>dtype = DFloat64, cells = map as_float cs\<rparr>
      else if list_ex is_int_cell cs then \<lparr>dtype = DInt64, cells = map as_int cs\<rparr>
      else if list_ex is_bool_cell cs then \<lparr>dtype = DBool, cells = cs\<rparr>
      else \<lparr>dtype = DInt64, cells = cs\<rparr>)"

text \<open>
  \<^verbatim>\<open>values.astype(np.int64)\<close> on a timestamp or time difference array: the
  nanosecond count, and the smallest 64-bit integer for NaT.
\<close>

fun datetimelike_to_int :: "cell \<Rightarrow> cell" where
  "datetimelike_to_int (VStamp t) = VInt t"
| "datetimelike_to_int (VDelta t) = VInt t"
| "datetimelike_to_int VNaT = VInt (- 9223372036854775808)"
| "datetimelike_to_int c = c"

text \<open>
  \<^verbatim>\<open>Series.values\<close> of a timezone-aware timestamp column is a plain
  \<^verbatim>\<open>datetime64[ns]\<close> array; for the other dtypes the array has the dtype of the
  column.
\<close>

fun values_dtype :: "dtype \<Rightarrow> dtype" where
  "values_dtype DDatetime64tz = DDatetime64"
| "values_dtype d = d"

text \<open>
  \<^verbatim>\<open>pd.to_numeric(col, errors='coerce')\<close>, which works on \<^verbatim>\<open>col.values\<close>: a
  numeric array passes through, a timestamp or time difference array is viewed as
  integers, anything else is converted value by value.
\<close>

definition to_numeric_coerce :: "pandas_lib \<Rightarrow> column \<Rightarrow> column" where
  "to_numeric_coerce L col =
     (if is_numeric_dtype (values_dtype (dtype col)) then col
      else if is_datetime_or_timedelta_dtype (values_dtype (dtype col))
      then \<lparr>dtype = DInt64, cells = map datetimelike_to_int (cells col)\<rparr>
      else numeric_result (map (coerce_cell L) (cells col)))"

text \<open>
  \<^verbatim>\<open>pd.to_datetime(col, format=format, infer_datetime_format=True)\<close>, which runs
  with \<^verbatim>\<open>errors='raise'\<close>: a timestamp column passes through, a missing value
  becomes NaT, and one value that cannot be read makes the call raise.
\<close>

fun to_datetime_cell :: "pandas_lib \<Rightarrow> string option \<Rightarrow> cell \<Rightarrow> cell option" where
  "to_datetime_cell L fmt (VStamp t) = Some (VStamp t)"
| "to_datetime_cell L fmt VNaN = Some VNaT"
| "to_datetime_cell L fmt VNone = Some VNaT"
| "to_datetime_cell L fmt VNaT = Some VNaT"
| "to_datetime_cell L fmt c = map_option VStamp (to_timestamp L fmt c)"

fun sequence_option :: "'a option list \<Rightarrow> 'a list option" where
  "sequence_option [] = Some []"
| "sequence_option (x # xs) =
     (case x of None \<Rightarrow> None
      | Some y \<Rightarrow> (case sequence_option xs of None \<Rightarrow> None | Some ys \<Rightarrow> Some (y # ys)))"

definition to_datetime :: "pandas_lib \<Rightarrow> string option \<Rightarrow> column \<Rightarrow> error + column" where
  "to_datetime L fmt col =
     (if dtype col = DDatetime64 \<or> dtype col = DDatetime64tz then Inr col
      else (case sequence_option (map (to_datetime_cell L fmt) (cells col)) of
              None \<Rightarrow> Inl ParserError
            | Some cs \<Rightarrow> Inr \<lparr>dtype = DDatetime64, cells = cs\<rparr>))"

text \<open>
  The lookup of the Boolean branch.  A Python dict compares keys with \<^verbatim>\<open>==\<close>, under
  which \<^verbatim>\<open>True\<close> is 1 and 1.0, and \<^verbatim>\<open>False\<close> is 0; in a dict display an
  entry whose key equals an earlier key replaces the value under that key.
\<close>

fun py_key :: "cell \<Rightarrow> cell" where
  "py_key (VBool b) = VInt (if b then 1 else 0)"
| "py_key (VFloat r) = (if of_int \<lfloor>r\<rfloor> = r then VInt \<lfloor>r\<rfloor> else VFloat r)"
| "py_key c = c"

definition py_eq :: "cell \<Rightarrow> cell \<Rightarrow> bool" where
  "py_eq a b = (py_key a = py_key b)"

definition py_setitem :: "(cell \<times> bool) list \<Rightarrow> cell \<Rightarrow> bool \<Rightarrow> (cell \<times> bool) list" where
  "py_setitem d k v =
     (if list_ex (\<lambda>p. py_eq (fst p) k) d
      then map (\<lambda>p. if py_eq (fst p) k then (fst p, v) else p) d
      else d @ [(k, v)])"

definition map_dict :: "kwargs \<Rightarrow> (cell \<times> bool) list" where
  "map_dict kw =
     py_setitem
       (py_setitem
          (py_setitem
             (py_setitem [] (case true_val kw of None \<Rightarrow> VBool True | Some v \<Rightarrow> v) True)
             (case false_val kw of None \<Rightarrow> VBool False | Some v \<Rightarrow> v) False)
          (VBool True) True)
       (VBool False) False"

text \<open>
  \<^verbatim>\<open>Series.map(dict)\<close> looks every value of the column up among the keys of the
  dict, with \<open>get_indexer\<close>, and writes the value of the key it finds, or NaN when it
  finds none.  \<open>dict_get\<close> is the result of the lookup at one position.
\<close>

definition dict_get ::
  "pandas_lib \<Rightarrow> (cell \<times> bool) list \<Rightarrow> column \<Rightarrow> nat \<Rightarrow> bool option" where
  "dict_get L d col i =
     (case get_indexer L (map fst d) col i of
        None \<Rightarrow> None
      | Some j \<Rightarrow> if j < length d then Some (snd (d ! j)) else None)"

definition series_map :: "pandas_lib \<Rightarrow> (cell \<times> bool) list \<Rightarrow> column \<Rightarrow> cell list" where
  "series_map L d col =
     map (\<lambda>i. case dict_get L d col i of None \<Rightarrow> VNaN | Some b \<Rightarrow> VBool b)
       [0..<length (cells col)]"

text \<open>Python truth values, as \<^verbatim>\<open>astype(bool)\<close> applies them to each entry.\<close>

fun py_bool :: "cell \<Rightarrow> bool" where
  "py_bool VNaN = True"
| "py_bool VNone = False"
| "py_bool VNaT = True"
| "py_bool (VBool b) = b"
| "py_bool (VInt i) = (i \<noteq> 0)"
| "py_bool (VFloat r) = (r \<noteq> 0)"
| "py_bool (VStr s) = (s \<noteq> [])"
| "py_bool (VStamp t) = True"
| "py_bool (VDelta t) = (t \<noteq> 0)"
| "py_bool (VTuple a b) = True"

definition astype_bool :: "cell list \<Rightarrow> cell list" where
  "astype_bool xs = map (\<lambda>c. VBool (py_bool c)) xs"

definition count_nonnull :: "column \<Rightarrow> nat" where
  "count_nonnull col = length (dropna (cells col))"

text \<open>
  \<^verbatim>\<open>convert_variable_data(df, column_id, new_type, **kwargs)\<close>.  The assignments
  \<^verbatim>\<open>df[column_id] = ...\<close> are the \<open>set_col\<close> of the returned frame; reading a
  column that the frame does not have raises \<^verbatim>\<open>KeyError\<close>.
\<close>

definition convert_variable_data ::
  "pandas_lib \<Rightarrow> frame \<Rightarrow> string \<Rightarrow> vtype \<Rightarrow> kwargs \<Rightarrow> error + frame" where
  "convert_variable_data L df column_id new_type kw =
     (case get_col df column_id of
        None \<Rightarrow> Inl (KeyError column_id)
      | Some col \<Rightarrow>
          let empty = (if kind df = Pandas then cells col = [] else False) in
          if empty then Inr df
          else if new_type = Numeric then
            (if kind df = Dask then Inr (set_col df column_id (to_numeric_coerce L col))
             else
               let orig_nonnull = count_nonnull col;
                   col' = to_numeric_coerce L col;
                   nonnull = count_nonnull col'
               in if nonnull = 0 \<and> orig_nonnull \<noteq> 0
                  then Inl (TypeError_AllStringToNumeric column_id)
                  else Inr (set_col df column_id col'))
          else if issubclass new_type Datetime then
            (case to_datetime L (format kw) col of
               Inl e \<Rightarrow> Inl e
             | Inr col' \<Rightarrow> Inr (set_col df column_id col'))
          else if new_type = Boolean then
            Inr (set_col df column_id
                  \<lparr>dtype = DBool, cells = astype_bool (series_map L (map_dict kw) col)\<rparr>)
          else if \<not> issubclass new_type Discrete then
            Inl (Exception_CannotConvert column_id new_type)
          else Inr df)"

section \<open>The conversion driver\<close>

datatype warning = LatLongNaNReplaced string

text \<open>
  \<^verbatim>\<open>values.where(values.notnull(), pd.Series([(np.nan, np.nan)] * len(values)))\<close>:
  every missing entry is replaced by the pair of NaNs; the result is an object column.
\<close>

definition replace_latlong_nan :: "column \<Rightarrow> column" where
  "replace_latlong_nan values =
     \<lparr>dtype = DObject,
      cells = map (\<lambda>c. if \<not> isna c then c else VTuple None None) (cells values)\<rparr>"

definition hasnans :: "column \<Rightarrow> bool" where
  "hasnans col = list_ex isna (cells col)"

text \<open>
  An entry of the type assignment map: the column, the type and its keyword arguments
  (\<open>no_kwargs\<close> for a bare type).  The map is a Python dict, kept in insertion order.
\<close>

type_synonym type_entry = "string \<times> vtype \<times> kwargs"

text \<open>
  One round of the loop of \<^verbatim>\<open>convert_all_variable_data\<close>.  \<open>current_type\<close> is
  read once, before the three independent \<^verbatim>\<open>if\<close>s; the state is the frame and the
  warnings issued so far.
\<close>

definition convert_entry ::
  "pandas_lib \<Rightarrow> pandas_types \<Rightarrow> frame \<times> warning list \<Rightarrow> type_entry
     \<Rightarrow> error + frame \<times> warning list" where
  "convert_entry L P st e =
     (let df = fst st; ws = snd st;
          var_id = fst e; desired_type = fst (snd e); type_args = snd (snd e)
      in case get_col df var_id of
           None \<Rightarrow> Inl (LookupError var_id)
         | Some col0 \<Rightarrow>
             let current_type = dtype_name (dtype col0) in
             case (if issubclass desired_type Numeric \<and>
                      current_type \<notin> set (pandas_numerics P)
                   then convert_variable_data L df var_id desired_type type_args
                   else Inr df) of
               Inl err \<Rightarrow> Inl err
             | Inr df1 \<Rightarrow>
             case (if issubclass desired_type Discrete \<and>
                      current_type \<notin> set [categorical P]
                   then convert_variable_data L df1 var_id desired_type type_args
                   else Inr df1) of
               Inl err \<Rightarrow> Inl err
             | Inr df2 \<Rightarrow>
             case (if issubclass desired_type Datetime \<and>
                      current_type \<notin> set (pandas_datetimes P)
                   then convert_variable_data L df2 var_id desired_type type_args
                   else Inr df2) of
               Inl err \<Rightarrow> Inl err
             | Inr df3 \<Rightarrow>
             case get_col df3 var_id of
               None \<Rightarrow> Inl (KeyError var_id)
             | Some col3 \<Rightarrow>
                 if issubclass desired_type LatLong \<and> kind df3 = Pandas \<and> hasnans col3
                 then Inr (set_col df3 var_id (replace_latlong_nan col3),
                           ws @ [LatLongNaNReplaced var_id])
                 else Inr (df3, ws))"

fun convert_loop ::
  "pandas_lib \<Rightarrow> pandas_types \<Rightarrow> frame \<times> warning list \<Rightarrow> type_entry list
     \<Rightarrow> error + frame \<times> warning list" where
  "convert_loop L P st [] = Inr st"
| "convert_loop L P st (e # es) =
     (case convert_entry L P st e of
        Inl err \<Rightarrow> Inl err
      | Inr st' \<Rightarrow> convert_loop L P st' es)"

definition convert_all_variable_data ::
  "pandas_lib \<Rightarrow> pandas_types \<Rightarrow> frame \<Rightarrow> type_entry list \<Rightarrow> error + frame \<times> warning list" where
  "convert_all_variable_data L P df variable_types = convert_loop L P (df, []) variable_types"

section \<open>The datetime detector\<close>

text \<open>\<^verbatim>\<open>str.find\<close>: the index of the first occurrence, or \<open>-1\<close>.\<close>

fun str_find_from :: "string \<Rightarrow> string \<Rightarrow> int \<Rightarrow> int" where
  "str_find_from [] sub i = (if sub = [] then i else - 1)"
| "str_find_from (x # xs) sub i =
     (if prefix sub (x # xs) then i else str_find_from xs sub (i + 1))"

definition str_find :: "string \<Rightarrow> string \<Rightarrow> int" where
  "str_find s sub = str_find_from s sub 0"

text \<open>
  \<^verbatim>\<open>isinstance(x, datetime)\<close>: a pandas timestamp is a \<^verbatim>\<open>datetime\<close>, and so is
  \<^verbatim>\<open>NaT\<close>, whose class derives from \<^verbatim>\<open>datetime\<close>.
\<close>

fun is_native_datetime :: "cell \<Rightarrow> bool" where
  "is_native_datetime (VStamp t) = True"
| "is_native_datetime VNaT = True"
| "is_native_datetime _ = False"

text \<open>
  Whether \<^verbatim>\<open>pd.to_numeric(values, errors='raise')\<close> returns: it does on a numeric,
  timestamp or time difference column, and otherwise when every value is a number.
\<close>

definition to_numeric_raise_ok :: "pandas_lib \<Rightarrow> dtype \<Rightarrow> cell list \<Rightarrow> bool" where
  "to_numeric_raise_ok L d xs =
     (is_numeric_dtype (values_dtype d) \<or> is_datetime_or_timedelta_dtype (values_dtype d) \<or>
      list_all (\<lambda>c. to_numeric_cell L c \<noteq> None) xs)"

definition col_is_datetime :: "pandas_lib \<Rightarrow> column \<Rightarrow> bool" where
  "col_is_datetime L col =
     (if str_find (dtype_name (dtype col)) ''datetime'' > - 1 \<or>
         (cells col \<noteq> [] \<and> is_native_datetime (hd (cells col)))
      then True
      else
        let dropped_na = dropna (cells col) in
        if to_numeric_raise_ok L (dtype col) dropped_na then False
        else if str_find (dtype_name (dtype col)) ''str'' > - 1 \<or>
                str_find (dtype_name (dtype col)) ''object'' > - 1
        then (case to_datetime L None \<lparr>dtype = dtype col, cells = dropped_na\<rparr> of
                Inl err \<Rightarrow> False
              | Inr res \<Rightarrow> True)
        else False)"

section \<open>Type inference\<close>

text \<open>
  \<^verbatim>\<open>Series.sample(n)\<close> draws \<open>n\<close> entries without replacement; the random numbers
  \<open>rs\<close> choose them.  Asking for more entries than the column has raises.
\<close>

fun sample_draw :: "nat \<Rightarrow> 'a list \<Rightarrow> nat list \<Rightarrow> 'a list" where
  "sample_draw 0 xs rs = []"
| "sample_draw (Suc n) xs rs =
     (if xs = [] then []
      else
        let i = (case rs of [] \<Rightarrow> 0 | r # rs' \<Rightarrow> r mod length xs)
        in xs ! i # sample_draw n (take i xs @ drop (Suc i) xs) (tl rs))"

definition series_sample :: "nat list \<Rightarrow> nat \<Rightarrow> cell list \<Rightarrow> cell list option" where
  "series_sample rs n xs = (if n > length xs then None else Some (sample_draw n xs rs))"

text \<open>\<^verbatim>\<open>Series.nunique(dropna=False)\<close> and \<^verbatim>\<open>Series.unique()\<close>.\<close>

definition nunique_keepna :: "cell list \<Rightarrow> nat" where
  "nunique_keepna xs = length (remdups xs)"

definition percent_unique :: "cell list \<Rightarrow> error + rat" where
  "percent_unique sample =
     (let unique = remdups sample in
      if length unique = 0 then Inl ZeroDivisionError
      else Inr (of_nat (length sample) / of_nat (length unique)))"

text \<open>
  The \<^verbatim>\<open>elif\<close> chain of the loop of \<^verbatim>\<open>infer_variable_types\<close> from its third
  branch on, for the column \<open>variable\<close>; \<open>inferred_type\<close> is the value the variable
  of that name holds when the round starts, and the result is the value it holds when
  the round ends.
\<close>

definition infer_column ::
  "pandas_lib \<Rightarrow> string list \<Rightarrow> string option list \<Rightarrow> string \<Rightarrow> column \<Rightarrow> vtype
     \<Rightarrow> error + vtype" where
  "infer_column L link_vars vids_to_assume_datetime variable col inferred_type =
     (if Some variable \<in> set vids_to_assume_datetime then
        (if col_is_datetime L col then Inr Datetime else Inr Numeric)
      else if variable \<in> set link_vars then Inr Categorical
      else if dtype_name (dtype col) = ''object'' then
        (if length (cells col) = 0 then Inr Categorical
         else if col_is_datetime L col then Inr Datetime
         else
           (case series_sample (rng L variable) (min 10000 (length (cells col))) (cells col) of
              None \<Rightarrow> Inl ValueError_Sample
            | Some sample \<Rightarrow>
                (case str_len_mean L sample of
                   None \<Rightarrow> Inr Categorical
                 | Some avg_length \<Rightarrow> if avg_length > 50 then Inr Text else Inr Categorical)))
      else if dtype_name (dtype col) = ''bool'' then Inr Boolean
      else if is_categorical_dtype (dtype col) then Inr Categorical
      else if is_numeric_dtype (dtype col) then Inr Numeric
      else if col_is_datetime L col then Inr Datetime
      else if length (cells col) \<noteq> 0 then
        (case series_sample (rng L variable) (min 10000 (nunique_keepna (cells col)))
                (cells col) of
           None \<Rightarrow> Inl ValueError_Sample
         | Some sample \<Rightarrow>
             (case percent_unique sample of
                Inl err \<Rightarrow> Inl err
              | Inr pu \<Rightarrow> if pu < 5 / 100 then Inr Categorical else Inr Numeric))
      else Inr inferred_type)"

text \<open>
  The loop over \<^verbatim>\<open>df.columns\<close>.  \<open>inferred_type\<close> and \<open>inferred_types\<close> are the
  two variables the loop updates; a column with an explicit type is skipped by
  \<^verbatim>\<open>continue\<close>, before the test for a Dask frame.
\<close>

fun infer_loop ::
  "pandas_lib \<Rightarrow> frame \<Rightarrow> string list \<Rightarrow> type_entry list \<Rightarrow> string option list
     \<Rightarrow> string list \<Rightarrow> vtype \<Rightarrow> (string \<times> vtype) list \<Rightarrow> error + (string \<times> vtype) list" where
  "infer_loop L df link_vars variable_types vids [] inferred_type inferred_types =
     Inr inferred_types"
| "infer_loop L df link_vars variable_types vids (variable # rest) inferred_type inferred_types =
     (if variable \<in> set (map fst variable_types)
      then infer_loop L df link_vars variable_types vids rest inferred_type inferred_types
      else if kind df = Dask then Inl ValueError_DaskInference
      else
        (case get_col df variable of
           None \<Rightarrow> Inl (KeyError variable)
         | Some col \<Rightarrow>
             (case infer_column L link_vars vids variable col inferred_type of
                Inl err \<Rightarrow> Inl err
              | Inr t \<Rightarrow>
                  infer_loop L df link_vars variable_types vids rest t
                    (AList.update variable t inferred_types))))"

definition infer_variable_types ::
  "pandas_lib \<Rightarrow> frame \<Rightarrow> string list \<Rightarrow> type_entry list \<Rightarrow> string option
     \<Rightarrow> (string \<times> string list) list \<Rightarrow> error + (string \<times> vtype) list" where
  "infer_variable_types L df link_vars variable_types time_index secondary_time_index =
     (let vids_to_assume_datetime =
            [time_index] @
            (if length (map fst secondary_time_index) \<noteq> 0
             then [Some (hd (map fst secondary_time_index))] else [])
      in infer_loop L df link_vars variable_types vids_to_assume_datetime
           (map fst (columns df)) Unknown [])"

section \<open>Statistics\<close>

text \<open>
  The input of \<^verbatim>\<open>generate_statistics\<close> is an entity set, an entity (which holds a
  frame) or a frame.
\<close>

datatype data = EntitySetData | EntityData frame | FrameData frame

text \<open>
  A value of the type map after \<^verbatim>\<open>convert_vtypes\<close>: a class of the taxonomy, or an
  object of such a class.  \<^verbatim>\<open>==\<close> between an object and a class is false,
  \<^verbatim>\<open>issubclass\<close> raises \<^verbatim>\<open>TypeError\<close> unless its first argument is a class, and
  a class is an instance of \<^verbatim>\<open>type\<close>, not of a class of the taxonomy.
\<close>

datatype type_ref = Class vtype | Instance vtype

fun issubclass_ref :: "type_ref \<Rightarrow> vtype \<Rightarrow> error + bool" where
  "issubclass_ref (Class c) k = Inr (issubclass c k)"
| "issubclass_ref (Instance c) k = Inl TypeError_NotAClass"

fun isinstance_ref :: "type_ref \<Rightarrow> vtype \<Rightarrow> bool" where
  "isinstance_ref (Class c) k = False"
| "isinstance_ref (Instance c) k = issubclass c k"

text \<open>
  Modelled from the spec: \<^verbatim>\<open>type_string\<close>, the canonical name of a semantic type,
  is declared with the classes of \<^verbatim>\<open>featuretools.variable_types\<close>.
\<close>

fun type_string :: "vtype \<Rightarrow> string" where
  "type_string Unknown = ''unknown''"
| "type_string Boolean = ''boolean''"
| "type_string Numeric = ''numeric''"
| "type_string Datetime = ''datetime''"
| "type_string Discrete = ''discrete''"
| "type_string Categorical = ''categorical''"
| "type_string Text = ''text''"
| "type_string LatLong = ''latlong''"

fun type_string_ref :: "type_ref \<Rightarrow> string" where
  "type_string_ref (Class c) = type_string c"
| "type_string_ref (Instance c) = type_string c"

datatype statval = SNat nat | SNum rat | SNaN | SCell cell | SStr string

text \<open>\<^verbatim>\<open>dict.update\<close> with the entries of a second dict, in their order.\<close>

definition dict_update :: "(string \<times> 'v) list \<Rightarrow> (string \<times> 'v) list \<Rightarrow> (string \<times> 'v) list" where
  "dict_update d new = foldl (\<lambda>acc p. AList.update (fst p) (snd p) acc) d new"

text \<open>
  \<^verbatim>\<open>data.reset_index()\<close> on a frame with the default index: the row numbers become
  a first column, named \<^verbatim>\<open>index\<close>, or \<^verbatim>\<open>level_0\<close> when that name is taken.
\<close>

definition reset_index :: "frame \<Rightarrow> error + frame" where
  "reset_index df =
     (let names = map fst (columns df);
          n = (case columns df of [] \<Rightarrow> 0 | p # ps \<Rightarrow> length (cells (snd p)));
          rows = \<lparr>dtype = DInt64, cells = map (\<lambda>i. VInt (int i)) [0..<n]\<rparr>
      in if ''index'' \<notin> set names then Inr (df\<lparr>columns := (''index'', rows) # columns df\<rparr>)
         else if ''level_0'' \<notin> set names
         then Inr (df\<lparr>columns := (''level_0'', rows) # columns df\<rparr>)
         else Inl ValueError_ResetIndex)"

text \<open>\<^verbatim>\<open>column.astype(float)\<close>, value by value; \<open>None\<close> where the cast raises.\<close>

fun astype_float_cell :: "pandas_lib \<Rightarrow> cell \<Rightarrow> cell option" where
  "astype_float_cell L (VFloat r) = Some (VFloat r)"
| "astype_float_cell L (VInt i) = Some (VFloat (of_int i))"
| "astype_float_cell L (VBool b) = Some (VFloat (if b then 1 else 0))"
| "astype_float_cell L VNaN = Some VNaN"
| "astype_float_cell L VNone = Some VNaN"
| "astype_float_cell L (VStr s) =
     (case str_to_float L s of
        NotNumeric \<Rightarrow> None
      | ParsedNaN \<Rightarrow> Some VNaN
      | ParsedInt i \<Rightarrow> Some (VFloat (of_int i))
      | ParsedFloat r \<Rightarrow> Some (VFloat r))"
| "astype_float_cell L c = None"

definition astype_float :: "pandas_lib \<Rightarrow> column \<Rightarrow> error + column" where
  "astype_float L col =
     (case sequence_option (map (astype_float_cell L) (cells col)) of
        None \<Rightarrow> Inl ValueError_Astype
      | Some cs \<Rightarrow> Inr \<lparr>dtype = DFloat64, cells = cs\<rparr>)"

text \<open>The numbers of a float column, missing values skipped.\<close>

fun numbers :: "cell list \<Rightarrow> rat list" where
  "numbers [] = []"
| "numbers (VFloat r # cs) = r # numbers cs"
| "numbers (c # cs) = numbers cs"

fun stamps :: "cell list \<Rightarrow> int list" where
  "stamps [] = []"
| "stamps (VStamp t # cs) = t # stamps cs"
| "stamps (c # cs) = stamps cs"

text \<open>
  The reductions of \<^verbatim>\<open>Series.agg\<close> on a float column; each skips missing values and
  is NaN when nothing is left (the standard deviation, with one degree of freedom
  removed, when fewer than two values are left).
\<close>

definition num_max :: "rat list \<Rightarrow> statval" where
  "num_max xs = (case xs of [] \<Rightarrow> SNaN | y # ys \<Rightarrow> SNum (fold max ys y))"

definition num_min :: "rat list \<Rightarrow> statval" where
  "num_min xs = (case xs of [] \<Rightarrow> SNaN | y # ys \<Rightarrow> SNum (fold min ys y))"

definition num_mean :: "rat list \<Rightarrow> statval" where
  "num_mean xs = (if xs = [] then SNaN else SNum (sum_list xs / of_nat (length xs)))"

definition num_std :: "pandas_lib \<Rightarrow> rat list \<Rightarrow> statval" where
  "num_std L xs =
     (if length xs < 2 then SNaN
      else
        let m = sum_list xs / of_nat (length xs)
        in SNum (float_sqrt L
                   (sum_list (map (\<lambda>x. (x - m) * (x - m)) xs) / of_nat (length xs - 1))))"

definition agg_numeric :: "pandas_lib \<Rightarrow> column \<Rightarrow> (string \<times> statval) list" where
  "agg_numeric L col =
     (let xs = numbers (cells col)
      in [(''max'', num_max xs), (''min'', num_min xs), (''mean'', num_mean xs),
          (''std'', num_std L xs)])"

text \<open>Integer division that rounds toward zero, for a positive divisor.\<close>

definition trunc_div :: "int \<Rightarrow> int \<Rightarrow> int" where
  "trunc_div a b = (if 0 \<le> a then a div b else - ((- a) div b))"

text \<open>
  The reductions on a timestamp column; the mean is the mean of the nanosecond counts,
  cut to an integer.
\<close>

definition agg_datetime :: "column \<Rightarrow> (string \<times> statval) list" where
  "agg_datetime col =
     (let ts = stamps (cells col)
      in case ts of
           [] \<Rightarrow> [(''max'', SCell VNaT), (''min'', SCell VNaT), (''mean'', SCell VNaT)]
         | y # ys \<Rightarrow>
             [(''max'', SCell (VStamp (fold max ys y))),
              (''min'', SCell (VStamp (fold min ys y))),
              (''mean'', SCell (VStamp (trunc_div (sum_list ts) (int (length ts)))))])"

text \<open>
  \<^verbatim>\<open>Series.quantile\<close> with its default linear interpolation: the value at position
  \<open>q * (n - 1)\<close> of the sorted numbers.
\<close>

definition quantile :: "rat \<Rightarrow> rat list \<Rightarrow> statval" where
  "quantile q xs =
     (let vs = sort xs; n = length vs in
      if n = 0 then SNaN
      else
        let pos = q * of_nat (n - 1);
            lo = nat \<lfloor>pos\<rfloor>;
            frac = pos - of_nat lo
        in if lo + 1 < n then SNum (vs ! lo + frac * (vs ! (lo + 1) - vs ! lo))
           else SNum (vs ! (n - 1)))"

text \<open>
  \<^verbatim>\<open>column.agg(applicable)\<close> for a list of the names \<^verbatim>\<open>count\<close> and
  \<^verbatim>\<open>nunique\<close>; \<^verbatim>\<open>agg(None)\<close> raises.
\<close>

fun common_stat :: "string \<Rightarrow> column \<Rightarrow> statval" where
  "common_stat name col =
     (if name = ''count'' then SNat (length (dropna (cells col)))
      else if name = ''nunique'' then SNat (length (remdups (dropna (cells col))))
      else SNaN)"

definition agg_common :: "string list option \<Rightarrow> column \<Rightarrow> error + (string \<times> statval) list" where
  "agg_common applicable col =
     (case applicable of
        None \<Rightarrow> Inl TypeError_AggNone
      | Some names \<Rightarrow> Inr (map (\<lambda>name. (name, common_stat name col)) names))"

definition COMMON_STATISTICS :: "string list" where
  "COMMON_STATISTICS = [''count'', ''nunique'']"

text \<open>
  The type-specific part of one round of the loop of \<^verbatim>\<open>generate_statistics\<close>: the
  normalised column and the entries written to \<open>values\<close>.
\<close>

definition typed_statistics ::
  "pandas_lib \<Rightarrow> type_ref \<Rightarrow> column \<Rightarrow> error + column \<times> (string \<times> statval) list" where
  "typed_statistics L v_type column0 =
     (if v_type = Class Boolean then
        (let column = \<lparr>dtype = DBool, cells = astype_bool (cells column0)\<rparr>
         in Inr (column,
                 [(''num_false'', SNat (length (filter (\<lambda>c. c = VBool False) (cells column)))),
                  (''num_true'', SNat (length (filter (\<lambda>c. c = VBool True) (cells column))))]))
      else if v_type = Class Numeric then
        (case astype_float L column0 of
           Inl err \<Rightarrow> Inl err
         | Inr column \<Rightarrow>
             let values = agg_numeric L column;
                 quant_values = map (\<lambda>q. quantile q (numbers (cells column))) [1 / 4, 1 / 2, 3 / 4]
             in Inr (column,
                     dict_update values
                       [(''first_quartile'', quant_values ! 0),
                        (''second_quartile'', quant_values ! 2),
                        (''third_quartile'', quant_values ! 2)]))
      else
        (case (if v_type = Class Discrete then Inr True else issubclass_ref v_type Discrete) of
           Inl err \<Rightarrow> Inl err
         | Inr True \<Rightarrow> Inr (column0\<lparr>dtype := DCategory\<rparr>, [])
         | Inr False \<Rightarrow>
             if v_type = Class Datetime then
               (case to_datetime L None column0 of
                  Inl err \<Rightarrow> Inl err
                | Inr column \<Rightarrow> Inr (column, agg_datetime column))
             else Inr (column0, [])))"

text \<open>
  One round of the loop: the statistics of the column \<open>column_name\<close>.
  \<^verbatim>\<open>applicable.remove('nunique')\<close> returns \<^verbatim>\<open>None\<close>, which is what
  \<open>applicable\<close> is bound to when the test on \<open>v_type\<close> succeeds.
\<close>

definition column_statistics ::
  "pandas_lib \<Rightarrow> frame \<Rightarrow> string \<Rightarrow> type_ref \<Rightarrow> error + (string \<times> statval) list" where
  "column_statistics L data column_name v_type =
     (case reset_index data of
        Inl err \<Rightarrow> Inl err
      | Inr data' \<Rightarrow>
     (case get_col data' column_name of
        None \<Rightarrow> Inl (KeyError column_name)
      | Some column0 \<Rightarrow>
     (case typed_statistics L v_type column0 of
        Inl err \<Rightarrow> Inl err
      | Inr (column, values) \<Rightarrow>
          let applicable =
                (if isinstance_ref v_type LatLong then None else Some COMMON_STATISTICS)
          in case agg_common applicable column of
               Inl err \<Rightarrow> Inl err
             | Inr common \<Rightarrow>
                 let values1 = dict_update values common;
                     values2 = AList.update ''nan_count''
                                 (SNat (length (filter isna (cells column)))) values1;
                     values3 = (case mode_first L (cells column) of
                                  None \<Rightarrow> values2
                                | Some m \<Rightarrow> AList.update ''mode'' (SCell m) values2)
                 in Inr (AList.update ''variable_type'' (SStr (type_string_ref v_type)) values3))))"

fun statistics_loop ::
  "pandas_lib \<Rightarrow> frame \<Rightarrow> (string \<times> type_ref) list \<Rightarrow> (string \<times> (string \<times> statval) list) list
     \<Rightarrow> error + (string \<times> (string \<times> statval) list) list" where
  "statistics_loop L data [] statistics = Inr statistics"
| "statistics_loop L data ((column_name, v_type) # rest) statistics =
     (case column_statistics L data column_name v_type of
        Inl err \<Rightarrow> Inl err
      | Inr values \<Rightarrow>
          statistics_loop L data rest (AList.update column_name values statistics))"

text \<open>
  \<^verbatim>\<open>generate_statistics(data, variable_types)\<close>, with \<open>variable_types\<close> as
  \<^verbatim>\<open>convert_vtypes\<close> returns it; the result is the dictionary \<open>statistics\<close>, which
  is what the function returns when \<^verbatim>\<open>return_dataframe\<close> is false.  A Dask frame is
  computed first, an entity hands over its frame after that.
\<close>

definition generate_statistics ::
  "pandas_lib \<Rightarrow> data \<Rightarrow> (string \<times> type_ref) list
     \<Rightarrow> error + (string \<times> (string \<times> statval) list) list" where
  "generate_statistics L data variable_types =
     (case data of
        EntitySetData \<Rightarrow> Inl TypeError_EntitySet
      | FrameData df \<Rightarrow> statistics_loop L (df\<lparr>kind := Pandas\<rparr>) variable_types []
      | EntityData df \<Rightarrow> statistics_loop L df variable_types [])"

section \<open>The converter and the driver, seen from the column\<close>

text \<open>
  \<^verbatim>\<open>convert_variable_data\<close> reads one column of the frame and writes that column
  back.  \<open>convert_column\<close> is what it computes for the column it reads, and
  \<open>entry_column\<close> is what a round of the driver computes for the column of its
  entry, together with whether the round issues the warning.  The lemmas
  \<open>convert_variable_data_column\<close> and \<open>convert_entry_column\<close> below show that
  the two functions on frames are these functions, applied to the column.
\<close>

definition convert_column ::
  "pandas_lib \<Rightarrow> frame_kind \<Rightarrow> string \<Rightarrow> vtype \<Rightarrow> kwargs \<Rightarrow> column \<Rightarrow> error + column" where
  "convert_column L k column_id new_type kw col =
     (if k = Pandas \<and> cells col = [] then Inr col
      else if new_type = Numeric then
        (if k = Dask then Inr (to_numeric_coerce L col)
         else if count_nonnull (to_numeric_coerce L col) = 0 \<and> count_nonnull col \<noteq> 0
         then Inl (TypeError_AllStringToNumeric column_id)
         else Inr (to_numeric_coerce L col))
      else if issubclass new_type Datetime then to_datetime L (format kw) col
      else if new_type = Boolean then
        Inr \<lparr>dtype = DBool, cells = astype_bool (series_map L (map_dict kw) col)\<rparr>
      else if \<not> issubclass new_type Discrete then
        Inl (Exception_CannotConvert column_id new_type)
      else Inr col)"

definition entry_column ::
  "pandas_lib \<Rightarrow> pandas_types \<Rightarrow> frame_kind \<Rightarrow> type_entry \<Rightarrow> column \<Rightarrow> error + column \<times> bool" where
  "entry_column L P k e col0 =
     (let var_id = fst e; desired_type = fst (snd e); type_args = snd (snd e);
          current_type = dtype_name (dtype col0)
      in case (if issubclass desired_type Numeric \<and> current_type \<notin> set (pandas_numerics P)
               then convert_column L k var_id desired_type type_args col0 else Inr col0) of
           Inl err \<Rightarrow> Inl err
         | Inr col1 \<Rightarrow>
         case (if issubclass desired_type Discrete \<and> current_type \<notin> set [categorical P]
               then convert_column L k var_id desired_type type_args col1 else Inr col1) of
           Inl err \<Rightarrow> Inl err
         | Inr col2 \<Rightarrow>
         case (if issubclass desired_type Datetime \<and> current_type \<notin> set (pandas_datetimes P)
               then convert_column L k var_id desired_type type_args col2 else Inr col2) of
           Inl err \<Rightarrow> Inl err
         | Inr col3 \<Rightarrow>
             if issubclass desired_type LatLong \<and> k = Pandas \<and> hasnans col3
             then Inr (replace_latlong_nan col3, True)
             else Inr (col3, False))"

section \<open>A small instance of the library, and sample data\<close>

text \<open>
  To run the model on concrete frames the parameters need values.  In \<open>plain_lib\<close> a
  string is a number, an integer, exactly when it is a non-empty string of decimal
  digits, no string is a timestamp, the sampler always draws the first entry, and the
  mode is the first entry that is not missing.  The lookup finds the first key that
  equals the value under Python's \<^verbatim>\<open>==\<close>, except that it finds nothing when the keys
  are all booleans and the column is an integer or float column, or the keys are all
  numbers and the column is a boolean column: pandas does not compare the two.
\<close>

fun first_index :: "('a \<Rightarrow> bool) \<Rightarrow> 'a list \<Rightarrow> nat option" where
  "first_index P [] = None"
| "first_index P (x # xs) = (if P x then Some 0 else map_option Suc (first_index P xs))"

definition plain_get_indexer :: "cell list \<Rightarrow> column \<Rightarrow> nat \<Rightarrow> nat option" where
  "plain_get_indexer keys col i =
     (if (list_all is_bool_cell keys \<and> dtype col \<in> {DInt8, DInt64, DFloat64}) \<or>
         (list_all (\<lambda>k. is_int_cell k \<or> is_float_cell k) keys \<and> dtype col = DBool)
      then None
      else first_index (\<lambda>k. py_eq k (cells col ! i)) keys)"

definition is_digit :: "char \<Rightarrow> bool" where
  "is_digit ch = (ch \<in> set ''0123456789'')"

definition digits_value :: "string \<Rightarrow> nat" where
  "digits_value s = foldl (\<lambda>n ch. 10 * n + (of_char ch - 48)) 0 s"

definition plain_numeric :: "string \<Rightarrow> numparse" where
  "plain_numeric s =
     (if s \<noteq> [] \<and> list_all is_digit s then ParsedInt (int (digits_value s)) else NotNumeric)"

definition plain_lib :: pandas_lib where
  "plain_lib =
     \<lparr>str_to_numeric = plain_numeric,
      str_to_float = plain_numeric,
      to_timestamp = (\<lambda>fmt c. None),
      get_indexer = plain_get_indexer,
      rng = (\<lambda>name. []),
      str_len_mean = (\<lambda>xs. None),
      float_sqrt = (\<lambda>r. r),
      mode_first = (\<lambda>xs. case dropna xs of [] \<Rightarrow> None | c # cs \<Rightarrow> Some c)\<rparr>"


definition colYN :: column where
  "colYN = \<lparr>dtype = DObject, cells = [VStr ''Y'', VStr ''N'', VStr ''maybe'']\<rparr>"

definition frameYN :: frame where
  "frameYN = \<lparr>kind = Pandas, columns = [(''flag'', colYN)]\<rparr>"

text \<open>A column of words.\<close>

definition col_words :: column where
  "col_words = \<lparr>dtype = DObject, cells = [VStr ''abc'', VStr ''xyz'']\<rparr>"

definition frame_words :: frame where
  "frame_words = \<lparr>kind = Pandas, columns = [(''word'', col_words)]\<rparr>"

text \<open>
  The tables of \<^verbatim>\<open>PandasTypes\<close> used on the sample data: six numeric names, the
  categorical name and two timestamp names.
\<close>

definition sample_pandas_types :: pandas_types where
  "sample_pandas_types =
     \<lparr>pandas_numerics = [''int16'', ''int32'', ''int64'', ''float16'', ''float32'', ''float64''],
      categorical = ''category'',
      pandas_datetimes = [''datetime64[ns]'', ''datetime64[ns, tz]'']\<rparr>"

text \<open>A frame with a column of digit strings, a column of integers and a boolean column.\<close>

definition col_zip :: column where
  "col_zip = \<lparr>dtype = DObject, cells = [VStr ''90210'', VStr ''10001'']\<rparr>"

definition col_n :: column where
  "col_n = \<lparr>dtype = DInt64, cells = [VInt 1, VInt 2]\<rparr>"

definition col_flag :: column where
  "col_flag = \<lparr>dtype = DBool, cells = [VBool True, VBool False]\<rparr>"

definition frame_zip :: frame where
  "frame_zip = \<lparr>kind = Pandas, columns = [(''zip'', col_zip), (''n'', col_n), (''flag'', col_flag)]\<rparr>"

definition types_zip :: "type_entry list" where
  "types_zip = [(''zip'', Numeric, no_kwargs), (''n'', Numeric, no_kwargs),
                (''flag'', Boolean, no_kwargs)]"

definition frame_zip_converted :: frame where
  "frame_zip_converted =
     \<lparr>kind = Pandas,
      columns = [(''zip'', \<lparr>dtype = DInt64, cells = [VInt 90210, VInt 10001]\<rparr>),
                 (''n'', col_n), (''flag'', col_flag)]\<rparr>"

text \<open>An object column that starts with NaT and goes on with a digit string.\<close>

definition col_nat_five :: column where
  "col_nat_five = \<lparr>dtype = DObject, cells = [VNaT, VStr ''5'']\<rparr>"

text \<open>A Dask frame, a pandas frame with no rows, and a column of time differences.\<close>

definition frame_dask :: frame where
  "frame_dask = \<lparr>kind = Dask, columns = [(''zip'', col_zip), (''n'', col_n)]\<rparr>"

definition frame_empty :: frame where
  "frame_empty =
     \<lparr>kind = Pandas,
      columns = [(''a'', \<lparr>dtype = DInt64, cells = []\<rparr>),
                 (''b'', \<lparr>dtype = DTimedelta64, cells = []\<rparr>)]\<rparr>"

definition col_delta :: column where
  "col_delta = \<lparr>dtype = DTimedelta64, cells = [VDelta 1, VDelta 1, VDelta 2]\<rparr>"

text \<open>A frame with a column of coordinate pairs, and a frame with a column of numbers.\<close>

definition frame_latlong :: frame where
  "frame_latlong =
     \<lparr>kind = Pandas,
      columns = [(''loc'', \<lparr>dtype = DObject,
                           cells = [VTuple (Some 1) (Some 2), VTuple (Some 3) (Some 4)]\<rparr>)]\<rparr>"

definition frame_nums :: frame where
  "frame_nums =
     \<lparr>kind = Pandas,
      columns = [(''x'', \<lparr>dtype = DInt64, cells = [VInt 1, VInt 2, VInt 3, VInt 4]\<rparr>)]\<rparr>"

text \<open>\<^verbatim>\<open>statistics[column_name][name]\<close> in the result of \<^verbatim>\<open>generate_statistics\<close>.\<close>

definition stat_of ::
  "error + (string \<times> (string \<times> statval) list) list \<Rightarrow> string \<Rightarrow> string \<Rightarrow> statval option" where
  "stat_of result column_name name =
     (case result of
        Inl err \<Rightarrow> None
      | Inr statistics \<Rightarrow>
          (case map_of statistics column_name of
             None \<Rightarrow> None
           | Some values \<Rightarrow> map_of values name))"

section \<open>Properties of the type converter\<close>

text \<open>The sample frames are well formed, and their columns are well typed.\<close>

lemma sample_frames_well_formed:
  "wf_frame frameYN \<and> wf_frame frame_words \<and> wf_frame frame_zip \<and> wf_frame frame_dask \<and>
   wf_frame frame_empty \<and> wf_frame frame_latlong \<and> wf_frame frame_nums"
  by (simp add: wf_frame_def frameYN_def frame_words_def frame_zip_def frame_dask_def
      frame_empty_def frame_latlong_def frame_nums_def colYN_def col_words_def col_zip_def
      col_n_def col_flag_def)

lemma sample_columns_well_typed:
  "wt_column colYN \<and> wt_column col_words \<and> wt_column col_zip \<and> wt_column col_n \<and>
   wt_column col_flag \<and> wt_column col_nat_five \<and> wt_column col_delta"
  by (simp add: wt_column_def colYN_def col_words_def col_zip_def col_n_def col_flag_def
      col_nat_five_def col_delta_def)

lemma get_set_col: "get_col (set_col df c col) c = Some col"
  by (simp add: get_col_def set_col_def update_Some_unfold)













text \<open>
  On a column of integers the lookup of \<open>plain_lib\<close> does not find the boolean keys:
  with the default keys every entry of the converted column is \<^verbatim>\<open>True\<close>.
\<close>

lemma convert_boolean_int_column:
  "convert_variable_data plain_lib
     \<lparr>kind = Pandas, columns = [(''k'', \<lparr>dtype = DInt64, cells = [VInt 1, VInt 0, VInt 2]\<rparr>)]\<rparr>
     ''k'' Boolean no_kwargs =
   Inr \<lparr>kind = Pandas,
        columns = [(''k'', \<lparr>dtype = DBool, cells = [VBool True, VBool True, VBool True]\<rparr>)]\<rparr>"
  by (simp add: convert_variable_data_def get_col_def set_col_def astype_bool_def
      series_map_def dict_get_def map_dict_def py_setitem_def py_eq_def no_kwargs_def
      plain_lib_def plain_get_indexer_def upt_rec)

lemma count_nonnull_zero: "count_nonnull col = 0 \<longleftrightarrow> list_all isna (cells col)"
  by (simp add: count_nonnull_def dropna_def list_all_iff filter_empty_conv)

lemma isna_coerce_nonnumeric_str:
  "str_to_numeric L s = NotNumeric \<Longrightarrow> coerce_cell L (VStr s) = VNaN"
  by (simp add: coerce_cell_def)

lemma notna_datetimelike_to_int: "\<not> isna v \<Longrightarrow> \<not> isna (datetimelike_to_int v)"
  by (cases v) simp_all

lemma notna_if_coerce_notna: "\<not> isna (coerce_cell L v) \<Longrightarrow> \<not> isna v"
  by (cases v) (simp_all add: coerce_cell_def)

lemma isna_as_float: "isna (as_float c) = isna c"
  by (cases c) simp_all

lemma isna_as_int: "isna (as_int c) = isna c"
  by (cases c) simp_all

lemma numeric_result_all_missing:
  "list_all isna (cells (numeric_result cs)) = list_all isna cs"
  by (simp add: numeric_result_def list_all_iff isna_as_float isna_as_int)

lemma numeric_result_is_numeric:
  "is_numeric_dtype (values_dtype (dtype (numeric_result cs)))"
  by (simp add: numeric_result_def)

lemma length_numeric_result: "length (cells (numeric_result cs)) = length cs"
  by (simp add: numeric_result_def)

lemma convert_numeric_pandas:
  assumes "kind df = Pandas" and "get_col df c = Some col" and "cells col \<noteq> []"
  shows "convert_variable_data L df c Numeric kw =
           (if count_nonnull (to_numeric_coerce L col) = 0 \<and> count_nonnull col \<noteq> 0
            then Inl (TypeError_AllStringToNumeric c)
            else Inr (set_col df c (to_numeric_coerce L col)))"
  using assms by (simp add: convert_variable_data_def Let_def)

lemma strings_not_numeric_dtype:
  assumes "wt_column col" and "VStr s \<in> set (cells col)"
  shows "\<not> is_numeric_dtype (values_dtype (dtype col)) \<and>
         \<not> is_datetime_or_timedelta_dtype (values_dtype (dtype col))"
  using assms by (cases "dtype col") (auto simp: wt_column_def list_all_iff)

text \<open>
  C2.  On a non-empty column of a pandas frame, the conversion to \<open>Numeric\<close> raises if
  and only if the column had a non-missing value before and has none after the numeric
  coercion.  In particular a well-typed column made of strings that are not numbers
  raises the lossy-conversion error, and a column with a value that the coercion turns
  into a number does not raise.
\<close>

theorem convert_numeric_raises_iff_all_lost:
  assumes "kind df = Pandas" and "get_col df c = Some col" and "cells col \<noteq> []"
  shows "((\<exists>err. convert_variable_data L df c Numeric kw = Inl err) \<longleftrightarrow>
            count_nonnull col \<noteq> 0 \<and> count_nonnull (to_numeric_coerce L col) = 0) \<and>
         (wt_column col \<and>
          (\<forall>v \<in> set (cells col). \<exists>s. v = VStr s \<and> str_to_numeric L s = NotNumeric) \<longrightarrow>
            convert_variable_data L df c Numeric kw = Inl (TypeError_AllStringToNumeric c)) \<and>
         ((\<exists>v \<in> set (cells col). \<not> isna (coerce_cell L v)) \<longrightarrow>
            convert_variable_data L df c Numeric kw = Inr (set_col df c (to_numeric_coerce L col)))"
proof (intro conjI impI)
  show "(\<exists>err. convert_variable_data L df c Numeric kw = Inl err) \<longleftrightarrow>
          count_nonnull col \<noteq> 0 \<and> count_nonnull (to_numeric_coerce L col) = 0"
    using assms by (auto simp: convert_numeric_pandas)
next
  assume a: "wt_column col \<and>
    (\<forall>v \<in> set (cells col). \<exists>s. v = VStr s \<and> str_to_numeric L s = NotNumeric)"
  obtain v where v: "v \<in> set (cells col)"
    using assms(3) by (cases "cells col") auto
  then obtain s where s: "v = VStr s"
    using a by blast
  have d: "\<not> is_numeric_dtype (values_dtype (dtype col)) \<and>
           \<not> is_datetime_or_timedelta_dtype (values_dtype (dtype col))"
    using strings_not_numeric_dtype a v s by blast
  have "list_all isna (map (coerce_cell L) (cells col))"
    using a by (auto simp: list_all_iff isna_coerce_nonnumeric_str)
  then have after: "count_nonnull (to_numeric_coerce L col) = 0"
    using d by (simp add: count_nonnull_zero to_numeric_coerce_def numeric_result_all_missing)
  have "\<not> isna v"
    using s by simp
  then have before: "count_nonnull col \<noteq> 0"
    using v by (auto simp: count_nonnull_zero list_all_iff)
  show "convert_variable_data L df c Numeric kw = Inl (TypeError_AllStringToNumeric c)"
    using assms after before by (simp add: convert_numeric_pandas)
next
  assume "\<exists>v \<in> set (cells col). \<not> isna (coerce_cell L v)"
  then obtain v where v: "v \<in> set (cells col)" and c: "\<not> isna (coerce_cell L v)"
    by blast
  have nv: "\<not> isna v"
    using c by (rule notna_if_coerce_notna)
  have "\<not> list_all isna (cells (to_numeric_coerce L col))"
  proof (cases "is_numeric_dtype (values_dtype (dtype col))")
    case True
    then show ?thesis
      using v nv by (auto simp: to_numeric_coerce_def list_all_iff)
  next
    case False
    show ?thesis
    proof (cases "is_datetime_or_timedelta_dtype (values_dtype (dtype col))")
      case True
      then show ?thesis
        using False v notna_datetimelike_to_int [OF nv]
        by (auto simp: to_numeric_coerce_def list_all_iff)
    next
      case nd: False
      have "\<not> list_all isna (map (coerce_cell L) (cells col))"
        using v c by (auto simp: list_all_iff)
      then show ?thesis
        using False nd by (simp add: to_numeric_coerce_def numeric_result_all_missing)
    qed
  qed
  then have "count_nonnull (to_numeric_coerce L col) \<noteq> 0"
    by (simp add: count_nonnull_zero)
  then show "convert_variable_data L df c Numeric kw = Inr (set_col df c (to_numeric_coerce L col))"
    using assms by (simp add: convert_numeric_pandas)
qed

text \<open>The theorem at the column of words: none of them is a number, the conversion raises.\<close>

theorem convert_numeric_raises_iff_all_lost_witness:
  "kind frame_words = Pandas \<and> get_col frame_words ''word'' = Some col_words \<and>
   cells col_words \<noteq> [] \<and> wt_column col_words \<and>
   count_nonnull col_words = 2 \<and>
   convert_variable_data plain_lib frame_words ''word'' Numeric no_kwargs =
     Inl (TypeError_AllStringToNumeric ''word'')"
proof -
  have h1: "kind frame_words = Pandas"
    by (simp add: frame_words_def)
  have h2: "get_col frame_words ''word'' = Some col_words"
    by (simp add: get_col_def frame_words_def)
  have h3: "cells col_words \<noteq> []"
    by (simp add: col_words_def)
  have h4: "wt_column col_words"
    by (simp add: wt_column_def col_words_def)
  have h5: "\<forall>v \<in> set (cells col_words). \<exists>s. v = VStr s \<and> str_to_numeric plain_lib s = NotNumeric"
    by (simp add: col_words_def plain_lib_def plain_numeric_def is_digit_def)
  have h6: "count_nonnull col_words = 2"
    by (simp add: count_nonnull_def dropna_def col_words_def)
  from convert_numeric_raises_iff_all_lost [OF h1 h2 h3, of plain_lib no_kwargs] h4 h5
  have "convert_variable_data plain_lib frame_words ''word'' Numeric no_kwargs =
          Inl (TypeError_AllStringToNumeric ''word'')"
    by blast
  then show ?thesis using h1 h2 h3 h4 h6 by simp
qed

text \<open>
  A timezone-aware timestamp column and an object column of booleans convert without an
  error: the first to the integers of its timestamps, the second stays boolean.
\<close>

lemma convert_numeric_tz_column:
  "convert_variable_data L
     \<lparr>kind = Pandas, columns = [(''t'', \<lparr>dtype = DDatetime64tz, cells = [VStamp 1, VStamp 5]\<rparr>)]\<rparr>
     ''t'' Numeric kw =
   Inr \<lparr>kind = Pandas,
        columns = [(''t'', \<lparr>dtype = DInt64, cells = [VInt 1, VInt 5]\<rparr>)]\<rparr>"
  by (simp add: convert_variable_data_def get_col_def set_col_def to_numeric_coerce_def
      count_nonnull_def dropna_def)

lemma convert_numeric_bool_objects:
  "convert_variable_data L
     \<lparr>kind = Pandas, columns = [(''b'', \<lparr>dtype = DObject, cells = [VBool True, VBool False]\<rparr>)]\<rparr>
     ''b'' Numeric kw =
   Inr \<lparr>kind = Pandas,
        columns = [(''b'', \<lparr>dtype = DBool, cells = [VBool True, VBool False]\<rparr>)]\<rparr>"
  by (simp add: convert_variable_data_def get_col_def set_col_def to_numeric_coerce_def
      numeric_result_def coerce_cell_def count_nonnull_def dropna_def)

section \<open>Properties of the conversion driver\<close>

lemma get_col_set_col: "get_col (set_col df c col) x = (if x = c then Some col else get_col df x)"
  by (simp add: get_col_def set_col_def update_conv)

lemma kind_set_col: "kind (set_col df c col) = kind df"
  by (simp add: set_col_def)

lemma set_col_triv: "get_col df c = Some col \<Longrightarrow> set_col df c col = df"
  by (simp add: get_col_def set_col_def update_triv)

lemma set_col_set_col: "set_col (set_col df c a) c b = set_col df c b"
  by (simp add: set_col_def)

lemma names_set_col:
  "get_col df c = Some col \<Longrightarrow> map fst (columns (set_col df c col')) = map fst (columns df)"
  by (auto simp: get_col_def set_col_def update_keys dest: map_of_SomeD intro: rev_image_eqI)

lemma convert_variable_data_column:
  assumes "get_col df c = Some col"
  shows "convert_variable_data L df c T kw =
           (case convert_column L (kind df) c T kw col of
              Inl err \<Rightarrow> Inl err
            | Inr col' \<Rightarrow> Inr (set_col df c col'))"
  using assms
  by (simp add: convert_variable_data_def convert_column_def Let_def set_col_triv
       split: sum.split)

lemma guarded_convert:
  assumes "get_col d c = Some cl"
  shows "(if g then convert_variable_data L d c T kw else Inr d) =
           (case (if g then convert_column L (kind d) c T kw cl else Inr cl) of
              Inl err \<Rightarrow> Inl err
            | Inr col' \<Rightarrow> Inr (set_col d c col'))"
  using assms by (simp add: convert_variable_data_column set_col_triv)

lemma convert_entry_column:
  assumes "get_col df c = Some col"
  shows "convert_entry L P (df, ws) (c, T, kw) =
           (case entry_column L P (kind df) (c, T, kw) col of
              Inl err \<Rightarrow> Inl err
            | Inr (col', w) \<Rightarrow>
                Inr (set_col df c col', ws @ (if w then [LatLongNaNReplaced c] else [])))"
  using assms
  by (cases T)
     (simp_all add: convert_entry_def entry_column_def Let_def
        convert_variable_data_column[OF assms] get_col_set_col kind_set_col set_col_triv
        split: sum.split)

lemma to_numeric_coerce_idem:
  "to_numeric_coerce L (to_numeric_coerce L col) = to_numeric_coerce L col"
  by (simp add: to_numeric_coerce_def numeric_result_is_numeric)

lemma to_datetime_idem:
  assumes "to_datetime L fmt col = Inr col'"
  shows "to_datetime L fmt col' = Inr col'"
  using assms by (auto simp: to_datetime_def split: if_splits option.splits)

lemma convert_column_idem:
  assumes "convert_column L k c T kw col = Inr col'" and "T \<noteq> Boolean"
  shows "convert_column L k c T kw col' = Inr col'"
proof (cases "k = Pandas \<and> cells col' = []")
  case True
  then show ?thesis by (simp add: convert_column_def)
next
  case False
  show ?thesis
  proof (cases "k = Pandas \<and> cells col = []")
    case True
    then have "col' = col"
      using assms by (simp add: convert_column_def)
    then show ?thesis using assms by simp
  next
    case ne: False
    show ?thesis
    proof (cases T)
      case Numeric
      then have "col' = to_numeric_coerce L col"
        using assms ne by (auto simp: convert_column_def split: if_splits)
      then show ?thesis
        using Numeric False by (auto simp: convert_column_def to_numeric_coerce_idem)
    next
      case Datetime
      then have "to_datetime L (format kw) col = Inr col'"
        using assms ne by (auto simp: convert_column_def split: if_splits)
      then have "to_datetime L (format kw) col' = Inr col'"
        by (rule to_datetime_idem)
      then show ?thesis
        using Datetime False by (simp add: convert_column_def)
    qed (use assms ne in \<open>auto simp: convert_column_def split: if_splits\<close>)
  qed
qed

lemma hasnans_replace_latlong_nan: "\<not> hasnans (replace_latlong_nan col)"
  by (auto simp: hasnans_def replace_latlong_nan_def list_ex_iff)

lemma entry_column_idem:
  assumes "entry_column L P k (c, T, kw) col = Inr (col', w)"
  shows "entry_column L P k (c, T, kw) col' = Inr (col', False)"
proof (cases T)
  case Numeric
  show ?thesis
  proof (cases "dtype_name (dtype col) \<in> set (pandas_numerics P)")
    case True
    then show ?thesis
      using assms Numeric by (auto simp: entry_column_def Let_def)
  next
    case False
    then have "convert_column L k c Numeric kw col = Inr col'"
      using assms Numeric by (auto simp: entry_column_def Let_def split: sum.splits)
    then have "convert_column L k c Numeric kw col' = Inr col'"
      by (rule convert_column_idem) simp
    then show ?thesis
      using Numeric by (simp add: entry_column_def Let_def)
  qed
next
  case Datetime
  show ?thesis
  proof (cases "dtype_name (dtype col) \<in> set (pandas_datetimes P)")
    case True
    then show ?thesis
      using assms Datetime by (auto simp: entry_column_def Let_def)
  next
    case False
    then have "convert_column L k c Datetime kw col = Inr col'"
      using assms Datetime by (auto simp: entry_column_def Let_def split: sum.splits)
    then have "convert_column L k c Datetime kw col' = Inr col'"
      by (rule convert_column_idem) simp
    then show ?thesis
      using Datetime by (simp add: entry_column_def Let_def)
  qed
next
  case LatLong
  then show ?thesis
    using assms hasnans_replace_latlong_nan [of col]
    by (auto simp: entry_column_def Let_def split: if_splits)
qed (use assms in \<open>auto simp: entry_column_def Let_def convert_column_def split: if_splits\<close>)

lemma entry_column_compatible:
  assumes "(T = Numeric \<and> dtype_name (dtype col) \<in> set (pandas_numerics P)) \<or>
           (issubclass T Discrete \<and> dtype_name (dtype col) = categorical P) \<or>
           (T = Datetime \<and> dtype_name (dtype col) \<in> set (pandas_datetimes P))"
  shows "entry_column L P k (c, T, kw) col = Inr (col, False)"
  using assms by (cases T) (auto simp: entry_column_def)

lemma convert_loop_frame:
  assumes "distinct (map fst es)" and "convert_loop L P (df, ws) es = Inr (df1, ws1)"
  shows "kind df1 = kind df \<and>
         (\<forall>x. x \<notin> fst ` set es \<longrightarrow> get_col df1 x = get_col df x) \<and>
         (\<forall>e \<in> set es. \<exists>col r. get_col df (fst e) = Some col \<and>
              entry_column L P (kind df) e col = Inr r \<and> get_col df1 (fst e) = Some (fst r))"
  using assms
proof (induction es arbitrary: df ws)
  case Nil
  then show ?case by simp
next
  case (Cons e es)
  obtain c T kw where e: "e = (c, T, kw)"
    by (cases e) auto
  obtain df' ws' where step: "convert_entry L P (df, ws) e = Inr (df', ws')"
    and rest: "convert_loop L P (df', ws') es = Inr (df1, ws1)"
    using Cons.prems(2) by (auto split: sum.splits)
  obtain col where col: "get_col df c = Some col"
    using step e by (cases "get_col df c") (auto simp: convert_entry_def)
  obtain col' w where ec: "entry_column L P (kind df) e col = Inr (col', w)"
    and df': "df' = set_col df c col'"
    using step convert_entry_column [OF col, of L P ws T kw] e
    by (auto split: sum.splits)
  have d: "distinct (map fst es)" and cn: "c \<notin> fst ` set es"
    using Cons.prems(1) e by auto
  note ih = Cons.IH [OF d rest]
  have k: "kind df' = kind df"
    by (simp add: df' kind_set_col)
  have other: "\<And>x. x \<noteq> c \<Longrightarrow> get_col df' x = get_col df x"
    by (simp add: df' get_col_set_col)
  have c1: "get_col df1 c = Some col'"
    using ih cn by (simp add: df' get_col_set_col)
  show ?case
  proof (intro conjI allI impI ballI)
    show "kind df1 = kind df"
      using ih k by simp
  next
    fix x assume "x \<notin> fst ` set (e # es)"
    then show "get_col df1 x = get_col df x"
      using ih other e by auto
  next
    fix e' assume e': "e' \<in> set (e # es)"
    show "\<exists>col r. get_col df (fst e') = Some col \<and>
            entry_column L P (kind df) e' col = Inr r \<and> get_col df1 (fst e') = Some (fst r)"
    proof (cases "e' = e")
      case True
      then show ?thesis
        using col ec c1 e by auto
    next
      case False
      then have m: "e' \<in> set es"
        using e' by simp
      then have "fst e' \<noteq> c"
        using cn by auto
      then show ?thesis
        using ih m other k by fastforce
    qed
  qed
qed

lemma convert_loop_fixed:
  assumes "\<forall>e \<in> set es. convert_entry L P (dg, ws) e = Inr (dg, ws)"
  shows "convert_loop L P (dg, ws) es = Inr (dg, ws)"
  using assms by (induction es) auto

text \<open>
  C6.  The driver is idempotent.  When a run of the driver over a type assignment map
  (a dict: its keys are distinct) returns, a second run with the same map returns the
  same frame and issues no warning; and a column whose storage was already compatible
  with its assigned type (a recognised numeric representation for \<open>Numeric\<close>, the
  categorical representation for a \<open>Discrete\<close> kind, a recognised timestamp
  representation for \<open>Datetime\<close>) is left as it was by the run.
\<close>

theorem convert_all_idempotent:
  assumes "distinct (map fst variable_types)"
    and "convert_all_variable_data L P df variable_types = Inr (df1, ws)"
  shows "convert_all_variable_data L P df1 variable_types = Inr (df1, []) \<and>
         (\<forall>e \<in> set variable_types. \<forall>col.
            get_col df (fst e) = Some col \<and>
            ((fst (snd e) = Numeric \<and> dtype_name (dtype col) \<in> set (pandas_numerics P)) \<or>
             (issubclass (fst (snd e)) Discrete \<and> dtype_name (dtype col) = categorical P) \<or>
             (fst (snd e) = Datetime \<and> dtype_name (dtype col) \<in> set (pandas_datetimes P)))
            \<longrightarrow> get_col df1 (fst e) = Some col)"
proof -
  have run: "convert_loop L P (df, []) variable_types = Inr (df1, ws)"
    using assms(2) by (simp add: convert_all_variable_data_def)
  note fr = convert_loop_frame [OF assms(1) run]
  have fixed: "\<forall>e \<in> set variable_types. convert_entry L P (df1, []) e = Inr (df1, [])"
  proof
    fix e assume m: "e \<in> set variable_types"
    obtain c T kw where e: "e = (c, T, kw)"
      by (cases e) auto
    obtain col col' w where "entry_column L P (kind df) e col = Inr (col', w)"
      and c1: "get_col df1 c = Some col'"
      using fr m e by fastforce
    then have "entry_column L P (kind df1) (c, T, kw) col' = Inr (col', False)"
      using entry_column_idem e fr by simp
    then show "convert_entry L P (df1, []) e = Inr (df1, [])"
      using convert_entry_column [OF c1, of L P "[]" T kw] e c1 by (simp add: set_col_triv)
  qed
  have again: "convert_all_variable_data L P df1 variable_types = Inr (df1, [])"
    using convert_loop_fixed [OF fixed] by (simp add: convert_all_variable_data_def)
  have compat: "\<forall>e \<in> set variable_types. \<forall>col.
            get_col df (fst e) = Some col \<and>
            ((fst (snd e) = Numeric \<and> dtype_name (dtype col) \<in> set (pandas_numerics P)) \<or>
             (issubclass (fst (snd e)) Discrete \<and> dtype_name (dtype col) = categorical P) \<or>
             (fst (snd e) = Datetime \<and> dtype_name (dtype col) \<in> set (pandas_datetimes P)))
            \<longrightarrow> get_col df1 (fst e) = Some col"
  proof (intro ballI allI impI)
    fix e col
    assume m: "e \<in> set variable_types"
      and h: "get_col df (fst e) = Some col \<and>
            ((fst (snd e) = Numeric \<and> dtype_name (dtype col) \<in> set (pandas_numerics P)) \<or>
             (issubclass (fst (snd e)) Discrete \<and> dtype_name (dtype col) = categorical P) \<or>
             (fst (snd e) = Datetime \<and> dtype_name (dtype col) \<in> set (pandas_datetimes P)))"
    obtain c T kw where e: "e = (c, T, kw)"
      by (cases e) auto
    have "entry_column L P (kind df) e col = Inr (col, False)"
      using entry_column_compatible [of T col P L "kind df" c kw] h e by simp
    then show "get_col df1 (fst e) = Some col"
      using fr m h by fastforce
  qed
  show ?thesis
    using again compat by simp
qed

text \<open>A run of the driver on the sample frame.\<close>

lemma zip_run:
  "convert_all_variable_data plain_lib sample_pandas_types frame_zip types_zip =
     Inr (frame_zip_converted, [])"
  by (simp add: convert_all_variable_data_def convert_entry_def convert_variable_data_def
      frame_zip_def types_zip_def frame_zip_converted_def col_zip_def col_n_def col_flag_def
      sample_pandas_types_def plain_lib_def plain_numeric_def is_digit_def digits_value_def
      get_col_def set_col_def no_kwargs_def to_numeric_coerce_def coerce_cell_def
      numeric_result_def
      count_nonnull_def dropna_def hasnans_def Let_def)

text \<open>
  The theorem on the sample frame: the digit strings become integers in the first run,
  the second run changes nothing, and the integer column is the same before and after.
\<close>

theorem convert_all_idempotent_witness:
  "distinct (map fst types_zip) \<and>
   convert_all_variable_data plain_lib sample_pandas_types frame_zip types_zip =
     Inr (frame_zip_converted, []) \<and>
   convert_all_variable_data plain_lib sample_pandas_types frame_zip_converted types_zip =
     Inr (frame_zip_converted, []) \<and>
   get_col frame_zip ''n'' = Some col_n \<and>
   dtype_name (dtype col_n) \<in> set (pandas_numerics sample_pandas_types) \<and>
   get_col frame_zip_converted ''n'' = Some col_n"
proof -
  have h1: "distinct (map fst types_zip)"
    by (simp add: types_zip_def)
  have h2: "convert_all_variable_data plain_lib sample_pandas_types frame_zip types_zip =
     Inr (frame_zip_converted, [])"
    by (rule zip_run)
  have m: "(''n'', Numeric, no_kwargs) \<in> set types_zip"
    by (simp add: types_zip_def)
  have g: "get_col frame_zip ''n'' = Some col_n"
    by (simp add: get_col_def frame_zip_def)
  have d: "dtype_name (dtype col_n) \<in> set (pandas_numerics sample_pandas_types)"
    by (simp add: col_n_def sample_pandas_types_def)
  note t = convert_all_idempotent [OF h1 h2]
  have "get_col frame_zip_converted ''n'' = Some col_n"
    using t m g d by fastforce
  then show ?thesis
    using t h1 h2 g d by simp
qed

text \<open>
  A timezone-aware timestamp column that is assigned \<open>Numeric\<close> is converted by the
  driver to the integers of its timestamps, whatever the library parameters are, and a
  second run leaves that frame as it is.
\<close>

lemma convert_all_tz_column:
  "convert_all_variable_data L sample_pandas_types
     \<lparr>kind = Pandas, columns = [(''t'', \<lparr>dtype = DDatetime64tz, cells = [VStamp 1, VStamp 5]\<rparr>)]\<rparr>
     [(''t'', Numeric, kw)] =
   Inr (\<lparr>kind = Pandas,
         columns = [(''t'', \<lparr>dtype = DInt64, cells = [VInt 1, VInt 5]\<rparr>)]\<rparr>, []) \<and>
   convert_all_variable_data L sample_pandas_types
     \<lparr>kind = Pandas, columns = [(''t'', \<lparr>dtype = DInt64, cells = [VInt 1, VInt 5]\<rparr>)]\<rparr>
     [(''t'', Numeric, kw)] =
   Inr (\<lparr>kind = Pandas,
         columns = [(''t'', \<lparr>dtype = DInt64, cells = [VInt 1, VInt 5]\<rparr>)]\<rparr>, [])"
  by (simp add: convert_all_variable_data_def convert_entry_def convert_variable_data_def
      sample_pandas_types_def get_col_def set_col_def to_numeric_coerce_def
      count_nonnull_def dropna_def hasnans_def Let_def)

text \<open>
  C10.  An entry of the type assignment map that assigns \<open>Boolean\<close> passes none of
  the driver's tests (\<open>Boolean\<close> is not a kind of \<open>Numeric\<close>, \<open>Discrete\<close>,
  \<open>Datetime\<close> or \<open>LatLong\<close>): its round of the loop returns the state it was given,
  without a call of the converter, or raises because the column is absent; and after a
  run of the driver the column is the one the frame had before.
\<close>

theorem convert_all_boolean_untouched:
  assumes "distinct (map fst variable_types)"
    and "(c, Boolean, kw) \<in> set variable_types"
    and "convert_all_variable_data L P df variable_types = Inr (df1, ws)"
  shows "get_col df1 c = get_col df c \<and>
         (\<forall>st. convert_entry L P st (c, Boolean, kw) =
                 (case get_col (fst st) c of
                    None \<Rightarrow> Inl (LookupError c)
                  | Some col \<Rightarrow> Inr st)) \<and>
         \<not> issubclass Boolean Numeric \<and> \<not> issubclass Boolean Discrete \<and>
         \<not> issubclass Boolean Datetime \<and> \<not> issubclass Boolean LatLong"
proof -
  have run: "convert_loop L P (df, []) variable_types = Inr (df1, ws)"
    using assms(3) by (simp add: convert_all_variable_data_def)
  obtain col r where g: "get_col df c = Some col"
    and ec: "entry_column L P (kind df) (c, Boolean, kw) col = Inr r"
    and g1: "get_col df1 c = Some (fst r)"
    using convert_loop_frame [OF assms(1) run] assms(2) by fastforce
  have "entry_column L P (kind df) (c, Boolean, kw) col = Inr (col, False)"
    by (simp add: entry_column_def)
  then have same: "get_col df1 c = get_col df c"
    using ec g g1 by simp
  have step: "\<forall>st. convert_entry L P st (c, Boolean, kw) =
                 (case get_col (fst st) c of
                    None \<Rightarrow> Inl (LookupError c)
                  | Some col \<Rightarrow> Inr st)"
    by (simp add: convert_entry_def split: option.split)
  show ?thesis
    using same step by simp
qed

text \<open>The theorem on the sample frame, whose last column is assigned \<open>Boolean\<close>.\<close>

theorem convert_all_boolean_untouched_witness:
  "distinct (map fst types_zip) \<and> (''flag'', Boolean, no_kwargs) \<in> set types_zip \<and>
   convert_all_variable_data plain_lib sample_pandas_types frame_zip types_zip =
     Inr (frame_zip_converted, []) \<and>
   get_col frame_zip_converted ''flag'' = get_col frame_zip ''flag'' \<and>
   get_col frame_zip ''flag'' = Some col_flag"
proof -
  have h1: "distinct (map fst types_zip)"
    by (simp add: types_zip_def)
  have h2: "(''flag'', Boolean, no_kwargs) \<in> set types_zip"
    by (simp add: types_zip_def)
  have h3: "convert_all_variable_data plain_lib sample_pandas_types frame_zip types_zip =
     Inr (frame_zip_converted, [])"
    by (rule zip_run)
  have g: "get_col frame_zip ''flag'' = Some col_flag"
    by (simp add: get_col_def frame_zip_def)
  from convert_all_boolean_untouched [OF h1 h2 h3]
  show ?thesis using h1 h2 h3 g by simp
qed

section \<open>Properties of the datetime detector and of type inference\<close>

lemma to_numeric_cell_to_timestamp:
  "to_numeric_cell (L\<lparr>to_timestamp := p\<rparr>) c = to_numeric_cell L c"
  by (cases c) simp_all

lemma to_numeric_raise_ok_to_timestamp:
  "to_numeric_raise_ok (L\<lparr>to_timestamp := p\<rparr>) d xs = to_numeric_raise_ok L d xs"
  by (simp add: to_numeric_raise_ok_def to_numeric_cell_to_timestamp)

lemma digit_strings_dtype:
  assumes "wt_column col" and "VStr s \<in> set (cells col)"
  shows "dtype col = DObject \<or> dtype col = DCategory \<or> dtype col = DString"
  using assms by (cases "dtype col") (auto simp: wt_column_def list_all_iff)

text \<open>
  C7, as the code has it.  For a column whose storage is not a timestamp representation
  and whose first value, if it has one, is not a native timestamp object (NaT is one),
  the detector returns false when all non-missing values parse strictly as numeric; in
  particular it returns false on a column made of digit strings, given that pandas
  reads every non-empty digit string as a number.  For any column, the result does not
  depend on the timestamp parser unless the strict numeric parse fails and the storage
  is string- or object-like: only then is the timestamp parse attempted.
\<close>

theorem col_is_datetime_false_on_numeric:
  assumes "\<not> str_find (dtype_name (dtype col)) ''datetime'' > - 1"
    and "cells col = [] \<or> \<not> is_native_datetime (hd (cells col))"
  shows "(list_all (\<lambda>c. to_numeric_cell L c \<noteq> None) (dropna (cells col)) \<longrightarrow>
            \<not> col_is_datetime L col) \<and>
         ((\<forall>s. s \<noteq> [] \<and> list_all is_digit s \<longrightarrow> str_to_numeric L s \<noteq> NotNumeric) \<and>
          (\<forall>v \<in> set (cells col). \<exists>s. v = VStr s \<and> s \<noteq> [] \<and> list_all is_digit s) \<longrightarrow>
            \<not> col_is_datetime L col) \<and>
         (to_numeric_raise_ok L (dtype col) (dropna (cells col)) \<or>
          \<not> (str_find (dtype_name (dtype col)) ''str'' > - 1 \<or>
             str_find (dtype_name (dtype col)) ''object'' > - 1) \<longrightarrow>
            (\<forall>p. col_is_datetime (L\<lparr>to_timestamp := p\<rparr>) col = col_is_datetime L col))"
proof (intro conjI impI)
  assume "list_all (\<lambda>c. to_numeric_cell L c \<noteq> None) (dropna (cells col))"
  then show "\<not> col_is_datetime L col"
    using assms by (auto simp: col_is_datetime_def to_numeric_raise_ok_def Let_def)
next
  assume a: "(\<forall>s. s \<noteq> [] \<and> list_all is_digit s \<longrightarrow> str_to_numeric L s \<noteq> NotNumeric) \<and>
          (\<forall>v \<in> set (cells col). \<exists>s. v = VStr s \<and> s \<noteq> [] \<and> list_all is_digit s)"
  have "\<forall>c \<in> set (dropna (cells col)). to_numeric_cell L c \<noteq> None"
  proof
    fix c assume "c \<in> set (dropna (cells col))"
    then have "c \<in> set (cells col)"
      by (simp add: dropna_def)
    then obtain s where "c = VStr s" and "s \<noteq> [] \<and> list_all is_digit s"
      using a by blast
    then show "to_numeric_cell L c \<noteq> None"
      using a by (auto split: numparse.splits)
  qed
  then have "list_all (\<lambda>c. to_numeric_cell L c \<noteq> None) (dropna (cells col))"
    by (simp add: list_all_iff)
  then show "\<not> col_is_datetime L col"
    using assms by (auto simp: col_is_datetime_def to_numeric_raise_ok_def Let_def)
next
  assume "to_numeric_raise_ok L (dtype col) (dropna (cells col)) \<or>
          \<not> (str_find (dtype_name (dtype col)) ''str'' > - 1 \<or>
             str_find (dtype_name (dtype col)) ''object'' > - 1)"
  then show "\<forall>p. col_is_datetime (L\<lparr>to_timestamp := p\<rparr>) col = col_is_datetime L col"
    by (auto simp: col_is_datetime_def to_numeric_raise_ok_to_timestamp Let_def)
qed

text \<open>The theorem on the column of digit strings.\<close>

theorem col_is_datetime_false_on_numeric_witness:
  "\<not> str_find (dtype_name (dtype col_zip)) ''datetime'' > - 1 \<and>
   (cells col_zip = [] \<or> \<not> is_native_datetime (hd (cells col_zip))) \<and>
   list_all (\<lambda>c. to_numeric_cell plain_lib c \<noteq> None) (dropna (cells col_zip)) \<and>
   \<not> col_is_datetime plain_lib col_zip"
proof -
  have h1: "\<not> str_find (dtype_name (dtype col_zip)) ''datetime'' > - 1"
    by (simp add: col_zip_def str_find_def)
  have h2: "cells col_zip = [] \<or> \<not> is_native_datetime (hd (cells col_zip))"
    by (simp add: col_zip_def)
  have h3: "list_all (\<lambda>c. to_numeric_cell plain_lib c \<noteq> None) (dropna (cells col_zip))"
    by (simp add: col_zip_def dropna_def plain_lib_def plain_numeric_def is_digit_def)
  from col_is_datetime_false_on_numeric [OF h1 h2, of plain_lib] h3
  have "\<not> col_is_datetime plain_lib col_zip"
    by blast
  then show ?thesis using h1 h2 h3 by simp
qed

text \<open>
  C7 as stated fails: an object column that starts with NaT is not timestamp storage,
  its only non-missing value \<^verbatim>\<open>"5"\<close> parses strictly as numeric, and the detector
  returns true, because the first value is an instance of \<^verbatim>\<open>datetime\<close>.
\<close>

theorem col_is_datetime_true_on_nat_first:
  "\<not> str_find (dtype_name (dtype col_nat_five)) ''datetime'' > - 1 \<and>
   dropna (cells col_nat_five) = [VStr ''5''] \<and>
   to_numeric_cell plain_lib (VStr ''5'') = Some (VInt 5) \<and>
   col_is_datetime plain_lib col_nat_five"
  by (simp add: col_nat_five_def str_find_def dropna_def plain_lib_def plain_numeric_def
      is_digit_def digits_value_def col_is_datetime_def)

lemma infer_loop_dask:
  assumes "kind df = Dask"
  shows "infer_loop L df link_vars variable_types vids cs t acc =
           (if \<exists>c \<in> set cs. c \<notin> set (map fst variable_types)
            then Inl ValueError_DaskInference else Inr acc)"
  using assms by (induction cs) auto

text \<open>
  C8.  On a Dask frame, inference raises the unsupported-input error if and only if
  some column has no explicit type, whatever the library parameters, the hints and the
  data are (no column is classified); when every column has an explicit type it returns
  the empty assignment.
\<close>

theorem infer_dask_raises_unless_all_typed:
  assumes "kind df = Dask"
  shows "infer_variable_types L df link_vars variable_types time_index secondary_time_index =
           (if \<exists>c \<in> set (map fst (columns df)). c \<notin> set (map fst variable_types)
            then Inl ValueError_DaskInference else Inr [])"
  using assms by (simp add: infer_variable_types_def infer_loop_dask Let_def)

text \<open>The theorem on the Dask sample frame, with one column typed and with both.\<close>

theorem infer_dask_raises_unless_all_typed_witness:
  "kind frame_dask = Dask \<and>
   infer_variable_types plain_lib frame_dask [] [(''zip'', Numeric, no_kwargs)] None [] =
     Inl ValueError_DaskInference \<and>
   infer_variable_types plain_lib frame_dask []
     [(''zip'', Numeric, no_kwargs), (''n'', Numeric, no_kwargs)] None [] = Inr []"
proof -
  have h: "kind frame_dask = Dask"
    by (simp add: frame_dask_def)
  show ?thesis
    using h
      infer_dask_raises_unless_all_typed [OF h, of plain_lib "[]" "[(''zip'', Numeric, no_kwargs)]" None "[]"]
      infer_dask_raises_unless_all_typed [OF h, of plain_lib "[]"
        "[(''zip'', Numeric, no_kwargs), (''n'', Numeric, no_kwargs)]" None "[]"]
    by (simp add: frame_dask_def)
qed

lemma length_sample_draw: "length (sample_draw n xs rs) = min n (length xs)"
proof (induction n arbitrary: xs rs)
  case 0
  then show ?case by simp
next
  case (Suc n)
  show ?case
  proof (cases "xs = []")
    case True
    then show ?thesis by simp
  next
    case False
    define i where "i = (case rs of [] \<Rightarrow> 0 | r # rs' \<Rightarrow> r mod length xs)"
    have "i < length xs"
      using False by (auto simp: i_def split: list.splits)
    then have "length (take i xs @ drop (Suc i) xs) = length xs - 1"
      by simp
    then have l: "length (sample_draw n (take i xs @ drop (Suc i) xs) (tl rs)) =
        min n (length xs - 1)"
      using Suc.IH [of "take i xs @ drop (Suc i) xs" "tl rs"] by simp
    have "sample_draw (Suc n) xs rs =
        xs ! i # sample_draw n (take i xs @ drop (Suc i) xs) (tl rs)"
      using False by (simp add: i_def Let_def)
    then show ?thesis
      using l False by (cases xs) auto
  qed
qed

lemma percent_unique_ge_1:
  assumes "sample \<noteq> []"
  shows "\<exists>pu. percent_unique sample = Inr pu \<and> 1 \<le> pu"
proof -
  have n: "remdups sample \<noteq> []"
    using assms by simp
  then have pos: "0 < length (remdups sample)"
    by simp
  have le: "length (remdups sample) \<le> length sample"
    by (rule length_remdups_leq)
  have "(1::rat) \<le> of_nat (length sample) / of_nat (length (remdups sample))"
    using pos le by (simp add: le_divide_eq)
  then show ?thesis
    using pos by (simp add: percent_unique_def Let_def)
qed

text \<open>
  C9.  A non-empty column that reaches the last rule of the chain gets a sample whose
  size divided by the number of its distinct values is at least 1, hence not below
  0.05: the rule assigns \<open>Numeric\<close>, whatever the random choices of the sampler are.
\<close>

theorem infer_sampling_rule_always_numeric:
  assumes "Some variable \<notin> set vids" and "variable \<notin> set link_vars"
    and "dtype_name (dtype col) \<noteq> ''object''" and "dtype_name (dtype col) \<noteq> ''bool''"
    and "\<not> is_categorical_dtype (dtype col)" and "\<not> is_numeric_dtype (dtype col)"
    and "\<not> col_is_datetime L col" and "length (cells col) \<noteq> 0"
  shows "\<exists>sample pu.
           series_sample (rng L variable) (min 10000 (nunique_keepna (cells col))) (cells col) =
             Some sample \<and>
           percent_unique sample = Inr pu \<and> 1 \<le> pu \<and> \<not> pu < 5 / 100 \<and>
           infer_column L link_vars vids variable col inferred_type = Inr Numeric"
proof -
  let ?n = "min 10000 (nunique_keepna (cells col))"
  let ?s = "sample_draw ?n (cells col) (rng L variable)"
  have ne: "cells col \<noteq> []"
    using assms(8) by simp
  then have u: "0 < nunique_keepna (cells col)"
    by (simp add: nunique_keepna_def)
  have le: "nunique_keepna (cells col) \<le> length (cells col)"
    by (simp add: nunique_keepna_def length_remdups_leq)
  then have fits: "\<not> ?n > length (cells col)"
    by simp
  have s: "series_sample (rng L variable) ?n (cells col) = Some ?s"
    using fits by (simp add: series_sample_def)
  have "length ?s = min ?n (length (cells col))"
    by (rule length_sample_draw)
  then have "0 < length ?s"
    using u ne by simp
  then have "?s \<noteq> []"
    by auto
  then obtain pu where pu: "percent_unique ?s = Inr pu" and one: "1 \<le> pu"
    using percent_unique_ge_1 by blast
  have nl: "\<not> pu < 5 / 100"
    using one by simp
  have "infer_column L link_vars vids variable col inferred_type = Inr Numeric"
    using assms s pu nl by (simp add: infer_column_def)
  then show ?thesis
    using s pu one nl by blast
qed

text \<open>The theorem on the column of time differences.\<close>

theorem infer_sampling_rule_always_numeric_witness:
  "Some ''d'' \<notin> set [None] \<and> ''d'' \<notin> set [] \<and>
   dtype_name (dtype col_delta) \<noteq> ''object'' \<and> dtype_name (dtype col_delta) \<noteq> ''bool'' \<and>
   \<not> is_categorical_dtype (dtype col_delta) \<and> \<not> is_numeric_dtype (dtype col_delta) \<and>
   \<not> col_is_datetime plain_lib col_delta \<and> length (cells col_delta) \<noteq> 0 \<and>
   infer_column plain_lib [] [None] ''d'' col_delta Unknown = Inr Numeric"
proof -
  have h1: "Some ''d'' \<notin> set [None]" by simp
  have h2: "''d'' \<notin> set []" by simp
  have h3: "dtype_name (dtype col_delta) \<noteq> ''object''" by (simp add: col_delta_def)
  have h4: "dtype_name (dtype col_delta) \<noteq> ''bool''" by (simp add: col_delta_def)
  have h5: "\<not> is_categorical_dtype (dtype col_delta)" by (simp add: col_delta_def)
  have h6: "\<not> is_numeric_dtype (dtype col_delta)" by (simp add: col_delta_def)
  have h7: "\<not> col_is_datetime plain_lib col_delta"
    by (simp add: col_delta_def col_is_datetime_def str_find_def to_numeric_raise_ok_def)
  have h8: "length (cells col_delta) \<noteq> 0" by (simp add: col_delta_def)
  from infer_sampling_rule_always_numeric [OF h1 h2 h3 h4 h5 h6 h7 h8, of Unknown]
  have "infer_column plain_lib [] [None] ''d'' col_delta Unknown = Inr Numeric"
    by blast
  then show ?thesis using h1 h2 h3 h4 h5 h6 h7 h8 by blast
qed

text \<open>
  C5 fails on the code.  \<open>inferred_type\<close> is set to \<open>Unknown\<close> once, before the
  loop: an empty column that matches no rule gets the type of the column before it.
  In the frame with no rows, the column \<open>b\<close> of time differences matches no rule
  and is assigned \<open>Numeric\<close>, the type of the integer column \<open>a\<close>.
\<close>

theorem infer_empty_column_keeps_previous_type:
  "infer_variable_types plain_lib frame_empty [] [] None [] =
     Inr [(''a'', Numeric), (''b'', Numeric)]"
  by (simp add: infer_variable_types_def infer_column_def frame_empty_def get_col_def
      col_is_datetime_def str_find_def to_numeric_raise_ok_def dropna_def)

section \<open>Properties of the statistics\<close>

text \<open>
  C4 as stated fails.  On the numbers 1, 2, 3, 4 the median is 5/2, and both
  \<open>second_quartile\<close> and \<open>third_quartile\<close> are 13/4, the 0.75 quantile: the two
  entries read \<^verbatim>\<open>quant_values[2]\<close>.
\<close>

theorem generate_statistics_second_quartile_not_median:
  "stat_of (generate_statistics plain_lib (FrameData frame_nums) [(''x'', Class Numeric)])
     ''x'' ''second_quartile'' = Some (SNum (13 / 4)) \<and>
   stat_of (generate_statistics plain_lib (FrameData frame_nums) [(''x'', Class Numeric)])
     ''x'' ''third_quartile'' = Some (SNum (13 / 4)) \<and>
   quantile (1 / 2) [1, 2, 3, 4] = SNum (5 / 2) \<and>
   quantile (3 / 4) [1, 2, 3, 4] = SNum (13 / 4)"
  by code_simp

text \<open>
  C3 fails on the code.  \<open>v_type\<close> is a class, and a class is not an instance of
  \<open>LatLong\<close>: the test that should drop \<open>nunique\<close> never succeeds, and the
  statistics of a column of coordinate pairs typed \<open>LatLong\<close> contain \<open>nunique\<close>.
\<close>

theorem generate_statistics_latlong_has_nunique:
  "generate_statistics plain_lib (FrameData frame_latlong) [(''loc'', Class LatLong)] =
     Inr [(''loc'',
           [(''count'', SNat 2), (''nunique'', SNat 2), (''nan_count'', SNat 0),
            (''mode'', SCell (VTuple (Some 1) (Some 2))),
            (''variable_type'', SStr ''latlong'')])]"
  by (simp add: generate_statistics_def column_statistics_def typed_statistics_def
      reset_index_def frame_latlong_def get_col_def agg_common_def COMMON_STATISTICS_def
      dict_update_def dropna_def plain_lib_def Let_def)

lemma map_of_dict_update_Cons:
  "map_of (dict_update d (p # ps)) = map_of (dict_update (AList.update (fst p) (snd p) d) ps)"
  by (simp add: dict_update_def)

lemma map_of_dict_update_Nil: "dict_update d [] = d"
  by (simp add: dict_update_def)

lemma column_statistics_parts:
  assumes "column_statistics L df c v = Inr values"
  shows "\<exists>df' col0 col vals.
           reset_index df = Inr df' \<and> get_col df' c = Some col0 \<and>
           typed_statistics L v col0 = Inr (col, vals) \<and> \<not> isinstance_ref v LatLong"
proof -
  obtain df' where r: "reset_index df = Inr df'"
    using assms by (cases "reset_index df") (simp_all add: column_statistics_def)
  obtain col0 where g: "get_col df' c = Some col0"
    using assms r by (cases "get_col df' c") (simp_all add: column_statistics_def)
  obtain col vals where t: "typed_statistics L v col0 = Inr (col, vals)"
    using assms r g by (cases "typed_statistics L v col0") (auto simp: column_statistics_def)
  have ni: "\<not> isinstance_ref v LatLong"
    using assms r g t by (auto simp: column_statistics_def agg_common_def)
  show ?thesis
    using r g t ni by blast
qed

lemma column_statistics_unfold:
  assumes "reset_index df = Inr df'" and "get_col df' c = Some col0"
    and "typed_statistics L v col0 = Inr (col, vals)" and "\<not> isinstance_ref v LatLong"
  shows "column_statistics L df c v =
           Inr (AList.update ''variable_type'' (SStr (type_string_ref v))
               (case mode_first L (cells col) of
                  None \<Rightarrow>
                    AList.update ''nan_count'' (SNat (length (filter isna (cells col))))
                      (dict_update vals
                         [(''count'', SNat (length (dropna (cells col)))),
                          (''nunique'', SNat (length (remdups (dropna (cells col)))))])
                | Some m \<Rightarrow>
                    AList.update ''mode'' (SCell m)
                      (AList.update ''nan_count'' (SNat (length (filter isna (cells col))))
                         (dict_update vals
                            [(''count'', SNat (length (dropna (cells col)))),
                             (''nunique'', SNat (length (remdups (dropna (cells col)))))]))))"
  using assms
  by (simp add: column_statistics_def agg_common_def COMMON_STATISTICS_def Let_def)

lemma column_statistics_count_nunique:
  assumes "column_statistics L df c v = Inr values"
  shows "map_of values ''count'' \<noteq> None \<and> map_of values ''nunique'' \<noteq> None"
proof -
  obtain df' col0 col vals where r: "reset_index df = Inr df'"
    and g: "get_col df' c = Some col0"
    and t: "typed_statistics L v col0 = Inr (col, vals)" and ni: "\<not> isinstance_ref v LatLong"
    using column_statistics_parts [OF assms] by blast
  have v: "values = AList.update ''variable_type'' (SStr (type_string_ref v))
               (case mode_first L (cells col) of
                  None \<Rightarrow>
                    AList.update ''nan_count'' (SNat (length (filter isna (cells col))))
                      (dict_update vals
                         [(''count'', SNat (length (dropna (cells col)))),
                          (''nunique'', SNat (length (remdups (dropna (cells col)))))])
                | Some m \<Rightarrow>
                    AList.update ''mode'' (SCell m)
                      (AList.update ''nan_count'' (SNat (length (filter isna (cells col))))
                         (dict_update vals
                            [(''count'', SNat (length (dropna (cells col)))),
                             (''nunique'', SNat (length (remdups (dropna (cells col)))))])))"
    using column_statistics_unfold [OF r g t ni] assms by simp
  show ?thesis
    unfolding v
    by (simp add: update_conv' map_of_dict_update_Cons map_of_dict_update_Nil
        split: option.split)
qed

lemma column_statistics_numeric_quartiles:
  assumes "column_statistics L df c (Class Numeric) = Inr values"
  shows "\<exists>df' col0 col. reset_index df = Inr df' \<and> get_col df' c = Some col0 \<and>
           astype_float L col0 = Inr col \<and>
           map_of values ''first_quartile'' = Some (quantile (1 / 4) (numbers (cells col))) \<and>
           map_of values ''third_quartile'' = Some (quantile (3 / 4) (numbers (cells col)))"
proof -
  define v where "v = Class Numeric"
  obtain df' col0 col vals where r: "reset_index df = Inr df'"
    and g: "get_col df' c = Some col0"
    and t: "typed_statistics L v col0 = Inr (col, vals)" and ni: "\<not> isinstance_ref v LatLong"
    using column_statistics_parts [OF assms] v_def by blast
  have v: "values = AList.update ''variable_type'' (SStr (type_string_ref v))
               (case mode_first L (cells col) of
                  None \<Rightarrow>
                    AList.update ''nan_count'' (SNat (length (filter isna (cells col))))
                      (dict_update vals
                         [(''count'', SNat (length (dropna (cells col)))),
                          (''nunique'', SNat (length (remdups (dropna (cells col)))))])
                | Some m \<Rightarrow>
                    AList.update ''mode'' (SCell m)
                      (AList.update ''nan_count'' (SNat (length (filter isna (cells col))))
                         (dict_update vals
                            [(''count'', SNat (length (dropna (cells col)))),
                             (''nunique'', SNat (length (remdups (dropna (cells col)))))])))"
    using column_statistics_unfold [OF r g t ni] assms v_def by simp
  have a: "astype_float L col0 = Inr col"
    and vals: "vals = dict_update (agg_numeric L col)
                 [(''first_quartile'', quantile (1 / 4) (numbers (cells col))),
                  (''second_quartile'', quantile (3 / 4) (numbers (cells col))),
                  (''third_quartile'', quantile (3 / 4) (numbers (cells col)))]"
    using t by (auto simp: v_def typed_statistics_def Let_def split: sum.splits)
  have "map_of values ''first_quartile'' = Some (quantile (1 / 4) (numbers (cells col))) \<and>
        map_of values ''third_quartile'' = Some (quantile (3 / 4) (numbers (cells col)))"
    unfolding v vals
    by (simp add: update_conv' map_of_dict_update_Cons map_of_dict_update_Nil
        split: option.split)
  then show ?thesis
    using r g a by blast
qed

lemma statistics_loop_entries:
  assumes "distinct (map fst vt)" and "statistics_loop L df vt acc = Inr statistics"
  shows "(\<forall>p \<in> set vt. \<exists>values. column_statistics L df (fst p) (snd p) = Inr values \<and>
            map_of statistics (fst p) = Some values) \<and>
         (\<forall>c. c \<notin> fst ` set vt \<longrightarrow> map_of statistics c = map_of acc c)"
  using assms
proof (induction vt arbitrary: acc)
  case Nil
  then show ?case by simp
next
  case (Cons p vt)
  obtain c v where p: "p = (c, v)"
    by (cases p) auto
  obtain vs where cs: "column_statistics L df c v = Inr vs"
    and rest: "statistics_loop L df vt (AList.update c vs acc) = Inr statistics"
    using Cons.prems(2) p by (auto split: sum.splits)
  have d: "distinct (map fst vt)" and cn: "c \<notin> fst ` set vt"
    using Cons.prems(1) p by auto
  note ih = Cons.IH [OF d rest]
  have here: "map_of statistics c = Some vs"
    using ih cn by (simp add: update_conv')
  show ?case
    using ih here cs p by (auto simp: update_conv')
qed

lemma generate_statistics_loop:
  assumes "data = FrameData df0 \<and> df = df0\<lparr>kind := Pandas\<rparr> \<or> data = EntityData df"
  shows "generate_statistics L data vt = statistics_loop L df vt []"
  using assms by (auto simp: generate_statistics_def)

text \<open>
  Whatever the type of a column is, \<open>LatLong\<close> included, its statistics contain
  \<open>count\<close> and \<open>nunique\<close> when the call returns.
\<close>

lemma generate_statistics_count_nunique:
  assumes "distinct (map fst variable_types)" and "(c, v) \<in> set variable_types"
    and "generate_statistics L data variable_types = Inr statistics"
  shows "stat_of (Inr statistics) c ''count'' \<noteq> None \<and>
         stat_of (Inr statistics) c ''nunique'' \<noteq> None"
proof -
  obtain df where "statistics_loop L df variable_types [] = Inr statistics"
    using assms(3) by (cases data) (auto simp: generate_statistics_def)
  then obtain vs where "column_statistics L df c v = Inr vs"
    and "map_of statistics c = Some vs"
    using statistics_loop_entries [OF assms(1)] assms(2) by fastforce
  then show ?thesis
    using column_statistics_count_nunique by (simp add: stat_of_def)
qed

text \<open>
  C4, as the code has it.  For a column typed \<open>Numeric\<close>, \<open>first_quartile\<close> is the
  0.25 quantile and \<open>third_quartile\<close> is the 0.75 quantile of the column cast to
  float.
\<close>

theorem generate_statistics_quartiles:
  assumes "data = FrameData df0 \<and> df = df0\<lparr>kind := Pandas\<rparr> \<or> data = EntityData df"
    and "distinct (map fst variable_types)"
    and "(c, Class Numeric) \<in> set variable_types"
    and "generate_statistics L data variable_types = Inr statistics"
  shows "\<exists>df' col0 col.
           reset_index df = Inr df' \<and> get_col df' c = Some col0 \<and>
           astype_float L col0 = Inr col \<and>
           stat_of (Inr statistics) c ''first_quartile'' =
             Some (quantile (1 / 4) (numbers (cells col))) \<and>
           stat_of (Inr statistics) c ''third_quartile'' =
             Some (quantile (3 / 4) (numbers (cells col)))"
proof -
  have "statistics_loop L df variable_types [] = Inr statistics"
    using generate_statistics_loop [OF assms(1)] assms(4) by simp
  then obtain vs where cs: "column_statistics L df c (Class Numeric) = Inr vs"
    and m: "map_of statistics c = Some vs"
    using statistics_loop_entries [OF assms(2)] assms(3) by fastforce
  show ?thesis
    using column_statistics_numeric_quartiles [OF cs] m by (simp add: stat_of_def)
qed

text \<open>
  The statistics of the column of numbers (the standard deviation is the variance here,
  since \<open>plain_lib\<close> takes the identity for the square root).
\<close>

lemma nums_run:
  "generate_statistics plain_lib (FrameData frame_nums) [(''x'', Class Numeric)] =
     Inr [(''x'',
           [(''max'', SNum 4), (''min'', SNum 1), (''mean'', SNum (5 / 2)),
            (''std'', SNum (5 / 3)), (''first_quartile'', SNum (7 / 4)),
            (''second_quartile'', SNum (13 / 4)), (''third_quartile'', SNum (13 / 4)),
            (''count'', SNat 4), (''nunique'', SNat 4), (''nan_count'', SNat 0),
            (''mode'', SCell (VFloat 1)), (''variable_type'', SStr ''numeric'')])]"
  by code_simp

text \<open>The theorem on the column of numbers.\<close>

theorem generate_statistics_quartiles_witness:
  "distinct (map fst [(''x'', Class Numeric)]) \<and>
   (\<exists>statistics df' col0 col.
      generate_statistics plain_lib (FrameData frame_nums) [(''x'', Class Numeric)] =
        Inr statistics \<and>
      reset_index (frame_nums\<lparr>kind := Pandas\<rparr>) = Inr df' \<and> get_col df' ''x'' = Some col0 \<and>
      astype_float plain_lib col0 = Inr col \<and>
      stat_of (Inr statistics) ''x'' ''first_quartile'' =
        Some (quantile (1 / 4) (numbers (cells col))) \<and>
      stat_of (Inr statistics) ''x'' ''third_quartile'' =
        Some (quantile (3 / 4) (numbers (cells col))))"
proof -
  have h1: "FrameData frame_nums = FrameData frame_nums \<and>
      frame_nums\<lparr>kind := Pandas\<rparr> = frame_nums\<lparr>kind := Pandas\<rparr> \<or>
      FrameData frame_nums = EntityData (frame_nums\<lparr>kind := Pandas\<rparr>)"
    by simp
  have h2: "distinct (map fst [(''x'', Class Numeric)])"
    by simp
  have h3: "(''x'', Class Numeric) \<in> set [(''x'', Class Numeric)]"
    by simp
  from generate_statistics_quartiles [OF h1 h2 h3 nums_run]
  show ?thesis using h2 nums_run by blast
qed

end
